theory Spec2Isabelle
  imports Main "HOL-Library.Word"
begin

section \<open>Python values used by \<^verbatim>\<open>robotarmlib.py\<close>\<close>

text \<open>
  The library is written for CPython 3.6+ (3.7.0 by its header). A Python \<^verbatim>\<open>str\<close> is
  modelled as a \<^typ>\<open>string\<close> whose characters are the code points below 256; a Python
  \<^verbatim>\<open>int\<close> is an \<^typ>\<open>int\<close>; \<^verbatim>\<open>None\<close> is \<^term>\<open>None\<close> of an option type.

  A Python \<^verbatim>\<open>float\<close> is an IEEE-754 binary64 value. \<open>Finite s m e\<close> denotes
  \<open>(-1)\<^sup>s \<sqdot> m \<sqdot> 2\<^sup>e\<close>; the operations below return finite values with an odd
  mantissa (or \<open>Finite s 0 0\<close> for a zero), so that every binary64 value has one result form:
  \<open>19.5\<close> is \<open>Finite False 39 (-1)\<close>, \<open>134.0\<close> is \<open>Finite False 67 1\<close>.
\<close>

datatype pyfloat = Finite bool nat int | Infinity bool | NaN

datatype pynum = IntV int | FloatV pyfloat

text \<open>
  Exceptions. \<open>Exception msg\<close> is the source's own \<^verbatim>\<open>raise Exception(msg)\<close>; the exceptions
  raised by built-in operations are identified by their type and (for \<^verbatim>\<open>TypeError\<close>) by the
  operation that raised them, their message text is not modelled.
\<close>

datatype type_error_origin =
    NoneType_add      \<comment> \<open>\<^verbatim>\<open>None + delta\<close>: unsupported operand type(s) for +\<close>
  | NoneType_format   \<comment> \<open>\<^verbatim>\<open>f"{None:.1f}"\<close>: unsupported format string passed to NoneType.__format__\<close>
  | Reduce_empty      \<comment> \<open>\<^verbatim>\<open>reduce\<close> of an empty sequence with no initial value\<close>

datatype error =
    Exception string
  | TypeError type_error_origin
  | ValueError        \<comment> \<open>\<^verbatim>\<open>float(s)\<close> on a string that is no number\<close>
  | IndexError        \<comment> \<open>\<^verbatim>\<open>seg[0]\<close> on the empty string\<close>
  | OverflowError     \<comment> \<open>int too large to convert to float\<close>

subsection \<open>Decimal rendering of integers: \<^verbatim>\<open>str(int)\<close>\<close>

definition digit_char :: "nat \<Rightarrow> char" where
  "digit_char d = ''0123456789'' ! d"

fun digits :: "nat \<Rightarrow> string" where
  "digits n = (if n < 10 then [digit_char n] else digits (n div 10) @ [digit_char (n mod 10)])"

declare digits.simps [simp del]

definition str_int :: "int \<Rightarrow> string" where
  "str_int i = (if i < 0 then CHR ''-'' # digits (nat (- i)) else digits (nat i))"

subsection \<open>Rounding to binary64\<close>

fun bit_length :: "nat \<Rightarrow> nat" where
  "bit_length n = (if n = 0 then 0 else Suc (bit_length (n div 2)))"

declare bit_length.simps [simp del]

text \<open>\<open>rdiv n d\<close> is \<open>n / d\<close> rounded to the nearest natural number, ties to even.\<close>

definition rdiv :: "nat \<Rightarrow> nat \<Rightarrow> nat" where
  "rdiv n d =
     (let q = n div d; r = n mod d
      in if 2 * r < d then q else if d < 2 * r then q + 1 else if even q then q else q + 1)"

text \<open>\<open>scaled n d e\<close> is the rounded value of \<open>n / (d \<sqdot> 2\<^sup>e)\<close>.\<close>

definition scaled :: "nat \<Rightarrow> nat \<Rightarrow> int \<Rightarrow> nat" where
  "scaled n d e = (if 0 \<le> e then rdiv n (d * 2 ^ nat e) else rdiv (n * 2 ^ nat (- e)) d)"

text \<open>\<open>ge_pow2 n d k\<close> holds iff \<open>2\<^sup>k \<le> n / d\<close>.\<close>

definition ge_pow2 :: "nat \<Rightarrow> nat \<Rightarrow> int \<Rightarrow> bool" where
  "ge_pow2 n d k = (if 0 \<le> k then d * 2 ^ nat k \<le> n else d \<le> n * 2 ^ nat (- k))"

function odd_form :: "nat \<Rightarrow> int \<Rightarrow> nat \<times> int" where
  "odd_form m e = (if m = 0 then (0, 0) else if even m then odd_form (m div 2) (e + 1) else (m, e))"
  by pat_completeness auto
termination
  by (relation "measure (\<lambda>(m, e). m)") auto

declare odd_form.simps [simp del]

text \<open>
  \<open>round_double s n d\<close> is the binary64 value nearest to \<open>(-1)\<^sup>s \<sqdot> n / d\<close> (for \<open>0 < d\<close>),
  ties to the even mantissa: 53 significant bits, least exponent \<open>-1074\<close> (subnormal numbers),
  and a magnitude of \<open>2\<^sup>1\<^sup>0\<^sup>2\<^sup>4\<close> or more becomes an infinity.
\<close>

definition round_double :: "bool \<Rightarrow> nat \<Rightarrow> nat \<Rightarrow> pyfloat" where
  "round_double s n d =
     (if n = 0 then Finite s 0 0
      else
        let k = int (bit_length n) - int (bit_length d);
            fl = (if ge_pow2 n d k then k else k - 1);
            e = max (fl - 52) (- 1074);
            m = scaled n d e;
            e' = (if m = 2 ^ 53 then e + 1 else e);
            m' = (if m = 2 ^ 53 then 2 ^ 52 else m)
        in if 971 < e' then Infinity s
           else case odd_form m' e' of (mo, eo) \<Rightarrow> Finite s mo eo)"

text \<open>\<^verbatim>\<open>float(i)\<close> for an int, as \<^verbatim>\<open>float + int\<close> does it: \<^verbatim>\<open>OverflowError\<close> beyond the range.\<close>

definition float_of_int :: "int \<Rightarrow> error + pyfloat" where
  "float_of_int i =
     (case round_double (i < 0) (nat \<bar>i\<bar>) 1 of
        Infinity _ \<Rightarrow> Inl OverflowError
      | f \<Rightarrow> Inr f)"

text \<open>Binary64 addition, round to nearest, ties to even.\<close>

fun float_add :: "pyfloat \<Rightarrow> pyfloat \<Rightarrow> pyfloat" where
  "float_add NaN _ = NaN"
| "float_add _ NaN = NaN"
| "float_add (Infinity s) (Infinity t) = (if s = t then Infinity s else NaN)"
| "float_add (Infinity s) (Finite _ _ _) = Infinity s"
| "float_add (Finite _ _ _) (Infinity t) = Infinity t"
| "float_add (Finite s1 m1 e1) (Finite s2 m2 e2) =
     (let e = min e1 e2;
          a = (if s1 then - int m1 else int m1) * 2 ^ nat (e1 - e);
          b = (if s2 then - int m2 else int m2) * 2 ^ nat (e2 - e);
          c = a + b
      in if c = 0 then Finite (s1 \<and> s2) 0 0
         else if 0 \<le> e then round_double (c < 0) (nat \<bar>c\<bar> * 2 ^ nat e) 1
         else round_double (c < 0) (nat \<bar>c\<bar>) (2 ^ nat (- e)))"

subsection \<open>Formatting: \<^verbatim>\<open>f"{v}"\<close> for an int and \<^verbatim>\<open>f"{v:.1f}"\<close> for a float\<close>

text \<open>
  \<open>tenths m e\<close> is \<open>10 \<sqdot> m \<sqdot> 2\<^sup>e\<close> rounded to the nearest natural number, ties to even:
  CPython's \<^verbatim>\<open>.1f\<close> rounds the exact binary value correctly.
\<close>

definition tenths :: "nat \<Rightarrow> int \<Rightarrow> nat" where
  "tenths m e = (if 0 \<le> e then 10 * m * 2 ^ nat e else rdiv (10 * m) (2 ^ nat (- e)))"

fun format_1f :: "pyfloat \<Rightarrow> string" where
  "format_1f NaN = ''nan''"
| "format_1f (Infinity s) = (if s then ''-inf'' else ''inf'')"
| "format_1f (Finite s m e) =
     (let t = tenths m e
      in (if s then ''-'' else []) @ digits (t div 10) @ ''.'' @ [digit_char (t mod 10)])"

subsection \<open>Strings: \<^verbatim>\<open>split(' ')\<close>, \<^verbatim>\<open>int(s)\<close>, \<^verbatim>\<open>float(s)\<close> and the regular expression\<close>

text \<open>
  \<^verbatim>\<open>s.split(' ')\<close> cuts at every single space and keeps empty pieces:
  \<^verbatim>\<open>"a  b".split(' ') == ['a', '', 'b']\<close> and \<^verbatim>\<open>"".split(' ') == ['']\<close>.
\<close>

fun split_on :: "char \<Rightarrow> string \<Rightarrow> string list" where
  "split_on sep [] = [[]]"
| "split_on sep (c # cs) =
     (if c = sep then [] # split_on sep cs
      else (c # hd (split_on sep cs)) # tl (split_on sep cs))"

text \<open>
  The characters that \<^verbatim>\<open>int\<close> and \<^verbatim>\<open>float\<close> skip at both ends of a string: tab, line feed,
  vertical tab, form feed, carriage return, space, and (below 256) U+0085 and U+00A0.
\<close>

definition is_space :: "char \<Rightarrow> bool" where
  "is_space c = (c \<in> set [CHR 0x09, CHR 0x0A, CHR 0x0B, CHR 0x0C, CHR 0x0D, CHR 0x20, CHR 0x85, CHR 0xA0])"

definition strip :: "string \<Rightarrow> string" where
  "strip s = rev (dropWhile is_space (rev (dropWhile is_space s)))"

definition is_digit :: "char \<Rightarrow> bool" where
  "is_digit c = (c \<in> set ''0123456789'')"

definition digit_val :: "char \<Rightarrow> nat" where
  "digit_val c = of_char c - 48"

definition nat_of_digits :: "string \<Rightarrow> nat" where
  "nat_of_digits ds = foldl (\<lambda>a c. 10 * a + digit_val c) 0 ds"

text \<open>
  Underscores in numeric strings (Python 3.6+): each one stands between two digits.
  \<open>drop_underscores prev s\<close> removes them, \<open>prev\<close> being the character before \<open>s\<close>.
\<close>

fun drop_underscores :: "char \<Rightarrow> string \<Rightarrow> string option" where
  "drop_underscores prev [] = (if prev = CHR ''_'' then None else Some [])"
| "drop_underscores prev (c # cs) =
     (if c = CHR ''_'' then (if is_digit prev then drop_underscores c cs else None)
      else if prev = CHR ''_'' \<and> \<not> is_digit c then None
      else map_option ((#) c) (drop_underscores c cs))"

definition split_sign :: "string \<Rightarrow> bool \<times> string" where
  "split_sign t =
     (case t of
        [] \<Rightarrow> (False, t)
      | c # cs \<Rightarrow> if c = CHR ''-'' then (True, cs) else if c = CHR ''+'' then (False, cs) else (False, t))"

text \<open>
  \<^verbatim>\<open>int(s)\<close> in base 10; \<open>None\<close> is \<^verbatim>\<open>ValueError\<close>. The number of digits is not
  limited, as in Python 3.7.0.
\<close>

definition py_int :: "string \<Rightarrow> int option" where
  "py_int s =
     (case split_sign (strip s) of (neg, r) \<Rightarrow>
        (case drop_underscores (CHR 0x00) r of
           None \<Rightarrow> None
         | Some ds \<Rightarrow>
             if ds \<noteq> [] \<and> list_all is_digit ds
             then Some (if neg then - int (nat_of_digits ds) else int (nat_of_digits ds))
             else None))"

text \<open>Lower case of the letters A to Z; every other character is left as it is.\<close>

definition lower_ascii :: "char \<Rightarrow> char" where
  "lower_ascii c =
     (case map_of (zip ''ABCDEFGHIJKLMNOPQRSTUVWXYZ'' ''abcdefghijklmnopqrstuvwxyz'') c of
        Some l \<Rightarrow> l
      | None \<Rightarrow> c)"

text \<open>
  A decimal numeral \<open>digits [. digits] [(e|E) [sign] digits]\<close> with a digit before or after the
  point: its digits as a natural number and its power of ten.
\<close>

definition parse_decimal :: "string \<Rightarrow> (nat \<times> int) option" where
  "parse_decimal r =
     (let ip = takeWhile is_digit r;
          r1 = dropWhile is_digit r;
          fp = (case r1 of c # cs \<Rightarrow> if c = CHR ''.'' then takeWhile is_digit cs else [] | [] \<Rightarrow> []);
          r2 = (case r1 of c # cs \<Rightarrow> if c = CHR ''.'' then dropWhile is_digit cs else r1 | [] \<Rightarrow> [])
      in if ip = [] \<and> fp = [] then None
         else case r2 of
           [] \<Rightarrow> Some (nat_of_digits (ip @ fp), - int (length fp))
         | c # cs \<Rightarrow>
             if c = CHR ''e'' \<or> c = CHR ''E''
             then (case split_sign cs of (neg, ds) \<Rightarrow>
                     if ds \<noteq> [] \<and> list_all is_digit ds
                     then Some (nat_of_digits (ip @ fp),
                                (if neg then - int (nat_of_digits ds) else int (nat_of_digits ds))
                                  - int (length fp))
                     else None)
             else None)"

definition double_of_decimal :: "bool \<Rightarrow> nat \<Rightarrow> int \<Rightarrow> pyfloat" where
  "double_of_decimal s m x =
     (if 0 \<le> x then round_double s (m * 10 ^ nat x) 1 else round_double s m (10 ^ nat (- x)))"

text \<open>\<^verbatim>\<open>float(s)\<close>; \<open>None\<close> is \<^verbatim>\<open>ValueError\<close>.\<close>

definition py_float :: "string \<Rightarrow> pyfloat option" where
  "py_float s =
     (case drop_underscores (CHR 0x00) (strip s) of
        None \<Rightarrow> None
      | Some t \<Rightarrow>
          (case split_sign t of (neg, r) \<Rightarrow>
             if map lower_ascii r = ''inf'' \<or> map lower_ascii r = ''infinity'' then Some (Infinity neg)
             else if map lower_ascii r = ''nan'' then Some NaN
             else map_option (\<lambda>(m, x). double_of_decimal neg m x) (parse_decimal r)))"

text \<open>
  \<^verbatim>\<open>re.compile("usb", flags=re.IGNORECASE).search(s)\<close>: some three consecutive characters
  of \<open>s\<close> are u, s, b in either case.
\<close>

fun usb_regex_search :: "string \<Rightarrow> bool" where
  "usb_regex_search (a # b # c # cs) =
     ((lower_ascii a = CHR ''u'' \<and> lower_ascii b = CHR ''s'' \<and> lower_ascii c = CHR ''b'')
      \<or> usb_regex_search (b # c # cs))"
| "usb_regex_search _ = False"

text \<open>
  \<^verbatim>\<open>functools.reduce(f, xs)\<close> without an initial value: \<^verbatim>\<open>TypeError\<close> on an empty sequence,
  otherwise the fold from the left that starts with the first element.
\<close>

definition reduce :: "('a \<Rightarrow> 'a \<Rightarrow> 'a) \<Rightarrow> 'a list \<Rightarrow> error + 'a" where
  "reduce f xs = (case xs of [] \<Rightarrow> Inl (TypeError Reduce_empty) | y # ys \<Rightarrow> Inr (foldl f y ys))"

subsection \<open>Bytes: \<^verbatim>\<open>str.encode("utf-8")\<close> and \<^verbatim>\<open>struct.pack("<Ns", b)\<close>\<close>

type_synonym byte = "8 word"

definition utf8_encode_char :: "char \<Rightarrow> byte list" where
  "utf8_encode_char c =
     (let n = of_char c :: nat
      in if n < 128 then [of_nat n] else [of_nat (192 + n div 64), of_nat (128 + n mod 64)])"

definition utf8_encode :: "string \<Rightarrow> byte list" where
  "utf8_encode s = concat (map utf8_encode_char s)"

text \<open>The format \<^verbatim>\<open>Ns\<close> takes exactly \<open>N\<close> bytes: a longer argument is cut, a shorter one padded with zero bytes.\<close>

definition pack_s :: "nat \<Rightarrow> byte list \<Rightarrow> byte list" where
  "pack_s n bs = take n bs @ replicate (n - length bs) 0"

section \<open>The serial port and the session\<close>

text \<open>
  The transport is pySerial's \<^verbatim>\<open>serial.Serial\<close>: the model keeps its configuration and whether
  it is open. What the session does to the outside world is recorded, in order, in the
  \<open>events\<close> of the session: the bytes handed to \<^verbatim>\<open>serial_port.write\<close>, the text printed,
  and the time slept.
\<close>

record serial =
  port :: "string option"
  baudrate :: int
  timeout :: "int option"
  is_open :: bool

definition Serial :: serial where
  "Serial = \<lparr>port = None, baudrate = 9600, timeout = None, is_open = False\<rparr>"

datatype event = Sleep pyfloat | SerialWrite "byte list" | Print string

record robot_arm =
  attachment :: int
  serial_port :: "serial option"
  dont_print_logs :: bool
  already_init :: bool
  x_pos :: "pynum option"
  y_pos :: "pynum option"
  z_pos :: "pynum option"
  coarse_step :: int
  fine_step :: int
  events :: "event list"

text \<open>A method returns its value or the exception raised, and the session as it is then.\<close>

type_synonym 'a result = "(error + 'a) \<times> robot_arm"

definition and_then :: "'a result \<Rightarrow> ('a \<Rightarrow> robot_arm \<Rightarrow> 'b result) \<Rightarrow> 'b result" where
  "and_then r f = (case r of (Inl e, s) \<Rightarrow> (Inl e, s) | (Inr a, s) \<Rightarrow> f a s)"

subsection \<open>Library constants\<close>


definition ATTACHMENT_GRIPPER :: int where "ATTACHMENT_GRIPPER = 0"
definition ATTACHMENT_FAN :: int where "ATTACHMENT_FAN = 1"

definition GCODE_ENABLE_MOTORS :: string where "GCODE_ENABLE_MOTORS = ''M17''"
definition GCODE_ENABLE_FAN :: string where "GCODE_ENABLE_FAN = ''M106''"
definition GCODE_DISABLE_FAN :: string where "GCODE_DISABLE_FAN = ''M107''"

definition GCODE_OPEN_GRIPPER :: "string \<Rightarrow> string" where
  "GCODE_OPEN_GRIPPER t = ''M3 T'' @ t"

definition GCODE_CLOSE_GRIPPER :: "string \<Rightarrow> string" where
  "GCODE_CLOSE_GRIPPER t = ''M5 T'' @ t"

definition GCODE_G1 :: "string \<Rightarrow> string \<Rightarrow> string \<Rightarrow> string" where
  "GCODE_G1 x y z = ''G1 X'' @ x @ '' Y'' @ y @ '' Z'' @ z"

text \<open>
  The source raises plain \<^verbatim>\<open>Exception\<close>s; the specification's error names are the
  messages they carry.
\<close>

definition ConfigurationError :: error where
  "ConfigurationError = Exception ''No serial port defined''"

definition ConnectionError :: error where
  "ConnectionError = Exception ''RobotArm serial port is not opened :(''"

definition DeviceNotFoundError :: error where
  "DeviceNotFoundError = Exception ''Cannot find USB port :(''"

definition UnsupportedAttachmentError :: "int \<Rightarrow> error" where
  "UnsupportedAttachmentError a = Exception (''unimplemented attachment type: '' @ str_int a)"

subsection \<open>Class methods\<close>

text \<open>
  \<open>ports\<close> is what \<^verbatim>\<open>get_available_serial_port_devices\<close> returns, the device names of
  \<^verbatim>\<open>list_ports.comports()\<close>. The elements that \<^verbatim>\<open>reduce\<close> folds are strings, so the value
  tested against \<^verbatim>\<open>None\<close> is a \<open>Some\<close>.
\<close>

definition get_default_serial_port :: "string list \<Rightarrow> error + serial" where
  "get_default_serial_port ports =
     (let ser = Serial
      in case reduce (\<lambda>acc val. val) (map Some (filter usb_regex_search ports)) of
           Inl e \<Rightarrow> Inl e
         | Inr None \<Rightarrow> Inl DeviceNotFoundError
         | Inr (Some p) \<Rightarrow> Inr (ser\<lparr>port := Some p, baudrate := 9600, timeout := Some 2\<rparr>))"

definition RobotArm__encode_gcode :: "string \<Rightarrow> byte list" where
  "RobotArm__encode_gcode gcode = pack_s (length gcode) (utf8_encode gcode)"

subsection \<open>Logging and connection state\<close>

definition RobotArm__print_log :: "string \<Rightarrow> string \<Rightarrow> bool \<Rightarrow> robot_arm \<Rightarrow> robot_arm" where
  "RobotArm__print_log msg end force s =
     (if \<not> dont_print_logs s \<or> force
      then s\<lparr>events := events s @ [Print (''RobotArm: '' @ msg @ end)]\<rparr>
      else s)"

definition print_log :: "string \<Rightarrow> string \<Rightarrow> robot_arm \<Rightarrow> robot_arm" where
  "print_log msg end s = RobotArm__print_log msg end False s"

definition newline :: string where
  "newline = [CHR 0x0A]"

definition is_connection_open :: "robot_arm \<Rightarrow> bool" where
  "is_connection_open s = (case serial_port s of None \<Rightarrow> False | Some p \<Rightarrow> is_open p)"

definition is_connection_not_open :: "robot_arm \<Rightarrow> bool" where
  "is_connection_not_open s = (\<not> is_connection_open s)"

definition get_pos :: "robot_arm \<Rightarrow> pynum option \<times> pynum option \<times> pynum option" where
  "get_pos s = (x_pos s, y_pos s, z_pos s)"

subsection \<open>Low-level sending and position tracking\<close>

text \<open>\<^verbatim>\<open>serial_port.write\<close> takes all the bytes and returns how many they are.\<close>

definition RobotArm__gcode_send :: "string \<Rightarrow> robot_arm \<Rightarrow> int result" where
  "RobotArm__gcode_send gcode s =
     (if serial_port s = None then (Inl ConfigurationError, s)
      else if is_connection_not_open s then (Inl ConnectionError, s)
      else
        let gcode' = gcode @ [CHR 0x0D, CHR 0x0A];
            bs = RobotArm__encode_gcode gcode';
            s1 = s\<lparr>events := events s @ [SerialWrite bs]\<rparr>
        in (Inr (int (length bs)), print_log gcode' [] s1))"

text \<open>An argument of \<^verbatim>\<open>__update_pos\<close> is a number, or a string still to be converted.\<close>

datatype pos_arg = Number pynum | Text string

definition convert_pos :: "pos_arg \<Rightarrow> error + pynum" where
  "convert_pos a =
     (case a of
        Number n \<Rightarrow> Inr n
      | Text t \<Rightarrow>
          (case py_int t of
             Some i \<Rightarrow> Inr (IntV i)
           | None \<Rightarrow> (case py_float t of Some f \<Rightarrow> Inr (FloatV f) | None \<Rightarrow> Inl ValueError)))"

definition RobotArm__update_pos ::
  "pos_arg option \<Rightarrow> pos_arg option \<Rightarrow> pos_arg option \<Rightarrow> robot_arm \<Rightarrow> unit result" where
  "RobotArm__update_pos xa ya za s =
     and_then
       (case xa of
          None \<Rightarrow> (Inr (), s)
        | Some a \<Rightarrow> (case convert_pos a of Inl e \<Rightarrow> (Inl e, s) | Inr v \<Rightarrow> (Inr (), s\<lparr>x_pos := Some v\<rparr>)))
       (\<lambda>_ s1.
          and_then
            (case ya of
               None \<Rightarrow> (Inr (), s1)
             | Some a \<Rightarrow> (case convert_pos a of Inl e \<Rightarrow> (Inl e, s1) | Inr v \<Rightarrow> (Inr (), s1\<lparr>y_pos := Some v\<rparr>)))
            (\<lambda>_ s2.
               case za of
                 None \<Rightarrow> (Inr (), s2)
               | Some a \<Rightarrow> (case convert_pos a of Inl e \<Rightarrow> (Inl e, s2) | Inr v \<Rightarrow> (Inr (), s2\<lparr>z_pos := Some v\<rparr>))))"

text \<open>The literal of one coordinate: \<^verbatim>\<open>f"{p}" if isinstance(p, int) else f"{p:.1f}"\<close>.\<close>

definition literal :: "pynum \<Rightarrow> string" where
  "literal v = (case v of IntV i \<Rightarrow> str_int i | FloatV f \<Rightarrow> format_1f f)"

definition pos_str :: "pynum option \<Rightarrow> error + string" where
  "pos_str p = (case p of Some v \<Rightarrow> Inr (literal v) | None \<Rightarrow> Inl (TypeError NoneType_format))"

text \<open>An omitted argument is the tracked value: \<^verbatim>\<open>self.__x_pos if x_pos is None else x_pos\<close>.\<close>

definition default_pos :: "pynum option \<Rightarrow> pynum option \<Rightarrow> pynum option" where
  "default_pos cur a = (case a of None \<Rightarrow> cur | Some v \<Rightarrow> Some v)"

definition gcode_send_pos :: "pynum option \<Rightarrow> pynum option \<Rightarrow> pynum option \<Rightarrow> robot_arm \<Rightarrow> int result" where
  "gcode_send_pos xa ya za s =
     (let x = default_pos (x_pos s) xa;
          y = default_pos (y_pos s) ya;
          z = default_pos (z_pos s) za
      in case pos_str x of Inl e \<Rightarrow> (Inl e, s) | Inr x_str \<Rightarrow>
         case pos_str y of Inl e \<Rightarrow> (Inl e, s) | Inr y_str \<Rightarrow>
         case pos_str z of Inl e \<Rightarrow> (Inl e, s) | Inr z_str \<Rightarrow>
           and_then (RobotArm__update_pos (map_option Number x) (map_option Number y) (map_option Number z) s)
             (\<lambda>_. RobotArm__gcode_send (GCODE_G1 x_str y_str z_str)))"

text \<open>
  One argument of \<^verbatim>\<open>gcode_send_pos_delta\<close>: \<^verbatim>\<open>pos + delta if delta else pos\<close>. A delta is an
  int or omitted; \<^verbatim>\<open>None\<close> and \<open>0\<close> are false.
\<close>

definition py_add :: "pynum option \<Rightarrow> int \<Rightarrow> error + pynum option" where
  "py_add p d =
     (case p of
        None \<Rightarrow> Inl (TypeError NoneType_add)
      | Some (IntV i) \<Rightarrow> Inr (Some (IntV (i + d)))
      | Some (FloatV f) \<Rightarrow>
          (case float_of_int d of Inl e \<Rightarrow> Inl e | Inr g \<Rightarrow> Inr (Some (FloatV (float_add f g)))))"

definition delta_pos :: "pynum option \<Rightarrow> int option \<Rightarrow> error + pynum option" where
  "delta_pos p delta =
     (case delta of
        None \<Rightarrow> Inr p
      | Some d \<Rightarrow> if d \<noteq> 0 then py_add p d else Inr p)"

definition gcode_send_pos_delta :: "int option \<Rightarrow> int option \<Rightarrow> int option \<Rightarrow> robot_arm \<Rightarrow> int result" where
  "gcode_send_pos_delta x_delta y_delta z_delta s =
     (case delta_pos (x_pos s) x_delta of Inl e \<Rightarrow> (Inl e, s) | Inr x \<Rightarrow>
      case delta_pos (y_pos s) y_delta of Inl e \<Rightarrow> (Inl e, s) | Inr y \<Rightarrow>
      case delta_pos (z_pos s) z_delta of Inl e \<Rightarrow> (Inl e, s) | Inr z \<Rightarrow>
        gcode_send_pos x y z s)"

text \<open>
  The loop of \<^verbatim>\<open>gcode_send\<close> over the pieces of the command: the handler chosen by the first
  character returns \<^verbatim>\<open>None\<close> (go on) or \<^verbatim>\<open>"break"\<close>.
\<close>

fun scan_segments :: "string list \<Rightarrow> robot_arm \<Rightarrow> unit result" where
  "scan_segments [] s = (Inr (), s)"
| "scan_segments (seg # segs) s =
     (case seg of
        [] \<Rightarrow> (Inl IndexError, s)
      | c # p \<Rightarrow>
          if c = CHR ''X'' then and_then (RobotArm__update_pos (Some (Text p)) None None s) (\<lambda>_. scan_segments segs)
          else if c = CHR ''Y'' then and_then (RobotArm__update_pos None (Some (Text p)) None s) (\<lambda>_. scan_segments segs)
          else if c = CHR ''Z'' then and_then (RobotArm__update_pos None None (Some (Text p)) s) (\<lambda>_. scan_segments segs)
          else if c = CHR ''G'' then scan_segments segs s
          else (Inr (), s))"

definition gcode_send :: "string \<Rightarrow> robot_arm \<Rightarrow> int result" where
  "gcode_send gcode s =
     and_then (scan_segments (split_on (CHR '' '') gcode) s) (\<lambda>_. RobotArm__gcode_send gcode)"

subsection \<open>Motors, attachment, preset positions and steps\<close>

definition gcode_enable_motors :: "robot_arm \<Rightarrow> int result" where
  "gcode_enable_motors s = RobotArm__gcode_send GCODE_ENABLE_MOTORS s"


definition gcode_close_gripper :: "int \<Rightarrow> robot_arm \<Rightarrow> int result" where
  "gcode_close_gripper t s = RobotArm__gcode_send (GCODE_OPEN_GRIPPER (str_int t)) s"

definition gcode_open_gripper :: "int \<Rightarrow> robot_arm \<Rightarrow> int result" where
  "gcode_open_gripper t s = RobotArm__gcode_send (GCODE_CLOSE_GRIPPER (str_int t)) s"

definition gcode_enable_fan :: "robot_arm \<Rightarrow> int result" where
  "gcode_enable_fan s = RobotArm__gcode_send GCODE_ENABLE_FAN s"

definition gcode_disable_fan :: "robot_arm \<Rightarrow> int result" where
  "gcode_disable_fan s = RobotArm__gcode_send GCODE_DISABLE_FAN s"

text \<open>The gripper methods are called without argument: \<open>t\<close> is its default, 10.\<close>

definition gcode_attachment_high :: "robot_arm \<Rightarrow> int result" where
  "gcode_attachment_high s =
     (if attachment s = ATTACHMENT_GRIPPER then gcode_close_gripper 10 s
      else if attachment s = ATTACHMENT_FAN then gcode_enable_fan s
      else (Inl (Exception (''unimplemented attachment type: '' @ str_int (attachment s))), s))"

definition gcode_attachment_low :: "robot_arm \<Rightarrow> int result" where
  "gcode_attachment_low s =
     (if attachment s = ATTACHMENT_GRIPPER then gcode_open_gripper 10 s
      else if attachment s = ATTACHMENT_FAN then gcode_disable_fan s
      else (Inl (Exception (''unimplemented attachment type: '' @ str_int (attachment s))), s))"

definition gcode_pos_home :: "robot_arm \<Rightarrow> int result" where
  "gcode_pos_home s = gcode_send_pos (Some (IntV 0)) (Some (IntV 120)) (Some (IntV 120)) s"

text \<open>The float literals \<open>0.0\<close>, \<open>19.5\<close> and \<open>134.0\<close>.\<close>

definition gcode_pos_end_stop :: "robot_arm \<Rightarrow> int result" where
  "gcode_pos_end_stop s =
     gcode_send_pos (Some (FloatV (Finite False 0 0))) (Some (FloatV (Finite False 39 (- 1))))
       (Some (FloatV (Finite False 67 1))) s"


















subsection \<open>Initialization, opening and closing, construction\<close>

text \<open>\<^verbatim>\<open>time.sleep(1.5)\<close>: the float \<open>1.5\<close> is \<open>Finite False 3 (-1)\<close>.\<close>

definition init_seq :: "robot_arm \<Rightarrow> unit result" where
  "init_seq s =
     (if already_init s then (Inr (), print_log ''already initialized'' newline s)
      else
        let s1 = s\<lparr>events := events s @ [Sleep (Finite False 3 (- 1))]\<rparr>
        in and_then (gcode_enable_motors s1) (\<lambda>_ s2.
           and_then (gcode_pos_end_stop s2) (\<lambda>_ s3.
           and_then (gcode_attachment_low s3) (\<lambda>_ s4.
             (Inr (), print_log ''initialization complete'' newline (s4\<lparr>already_init := True\<rparr>))))))"

text \<open>
  \<open>open_result\<close> is what \<^verbatim>\<open>serial_port.open()\<close> does: \<open>None\<close> when the port opens,
  \<open>Some err\<close> when it raises an \<^verbatim>\<open>OSError\<close> that prints as \<open>err\<close>.
\<close>

definition open_connection :: "string option \<Rightarrow> robot_arm \<Rightarrow> unit result" where
  "open_connection open_result s =
     (case serial_port s of
        Some p \<Rightarrow>
          let s1 = print_log ''Opening connection to serial port'' newline s;
              s2 = (case open_result of
                      None \<Rightarrow> s1\<lparr>serial_port := Some (p\<lparr>is_open := True\<rparr>)\<rparr>
                    | Some err \<Rightarrow> RobotArm__print_log (''error opening serial port: '' @ err) newline True s1)
          in init_seq s2
      | None \<Rightarrow> (Inl (Exception ''No serial port defined''), s))"


text \<open>
  The constructor \<^verbatim>\<open>RobotArm(attachment, serial_port, use_default_serial_port,
  start_connection, verbose)\<close>, with the device names of the machine and the outcome of opening.
\<close>

definition new_session :: "int \<Rightarrow> serial option \<Rightarrow> bool \<Rightarrow> robot_arm" where
  "new_session attachment' serial_port' verbose =
     \<lparr>attachment = attachment', serial_port = serial_port', dont_print_logs = \<not> verbose,
      already_init = False, x_pos = None, y_pos = None, z_pos = None,
      coarse_step = 20, fine_step = 5, events = []\<rparr>"

definition RobotArm ::
  "int \<Rightarrow> serial option \<Rightarrow> bool \<Rightarrow> bool \<Rightarrow> bool \<Rightarrow> string list \<Rightarrow> string option \<Rightarrow> unit result" where
  "RobotArm attachment' serial_port' use_default_serial_port start_connection verbose ports open_result =
     (let s = new_session attachment' serial_port' verbose
      in case (if serial_port' = None \<and> use_default_serial_port
               then map_sum id (\<lambda>p. s\<lparr>serial_port := Some p\<rparr>) (get_default_serial_port ports)
               else Inr s) of
           Inl e \<Rightarrow> (Inl e, s)
         | Inr s1 \<Rightarrow>
             if is_connection_open s1 then init_seq s1
             else if start_connection then open_connection open_result s1
             else (Inr (), s1))"

text \<open>The destructor \<^verbatim>\<open>__del__\<close>.\<close>

definition del :: "robot_arm \<Rightarrow> robot_arm" where
  "del s =
     (case serial_port s of
        Some p \<Rightarrow> if is_open p then s\<lparr>serial_port := Some (p\<lparr>is_open := False\<rparr>)\<rparr> else s
      | None \<Rightarrow> s)"

subsection \<open>A session's lifetime: any sequence of method calls\<close>




text \<open>What a list of events sent over the transport, and how many bytes.\<close>

fun writes :: "event list \<Rightarrow> byte list list" where
  "writes [] = []"
| "writes (SerialWrite bs # es) = bs # writes es"
| "writes (_ # es) = writes es"

definition bytes_sent :: "event list \<Rightarrow> nat" where
  "bytes_sent es = length (concat (writes es))"

text \<open>A command as it goes over the wire: the text, carriage return, line feed.\<close>

definition wire :: "string \<Rightarrow> byte list" where
  "wire gcode = RobotArm__encode_gcode (gcode @ [CHR 0x0D, CHR 0x0A])"

subsection \<open>Sessions used as examples\<close>

text \<open>
  Sessions with logging on, as the constructor leaves them when it is called with
  \<^verbatim>\<open>start_connection=False\<close> (and \<^verbatim>\<open>use_default_serial_port=False\<close> for the first):
  without transport, and with a closed transport. The open sessions are the second after the
  caller has opened the port itself (\<^verbatim>\<open>arm.serial_port.open()\<close>): nothing has been sent
  and no position is tracked yet.
\<close>

definition no_transport_session :: robot_arm where
  "no_transport_session = new_session ATTACHMENT_GRIPPER None True"

definition closed_session :: robot_arm where
  "closed_session = new_session ATTACHMENT_GRIPPER (Some Serial) True"

definition open_session :: robot_arm where
  "open_session = new_session ATTACHMENT_GRIPPER (Some (Serial\<lparr>is_open := True\<rparr>)) True"

definition fan_session :: robot_arm where
  "fan_session = new_session ATTACHMENT_FAN (Some (Serial\<lparr>is_open := True\<rparr>)) True"

text \<open>The open session after \<^verbatim>\<open>gcode_pos_home()\<close>.\<close>

definition home_session :: robot_arm where
  "home_session =
     open_session\<lparr>x_pos := Some (IntV 0), y_pos := Some (IntV 120), z_pos := Some (IntV 120),
       events := [SerialWrite (wire ''G1 X0 Y120 Z120''),
                  Print (''RobotArm: G1 X0 Y120 Z120'' @ [CHR 0x0D, CHR 0x0A])]\<rparr>"

subsection \<open>The scan of \<^verbatim>\<open>gcode_send\<close> as the specification words it\<close>

text \<open>
  Whitespace-delimited tokens are the maximal runs of characters that are not whitespace
  (\<^verbatim>\<open>str.isspace\<close>, below 256: U+0009 to U+000D, U+001C to U+0020, U+0085, U+00A0).
\<close>

definition claim_whitespace :: "char \<Rightarrow> bool" where
  "claim_whitespace c = (is_space c \<or> c \<in> set [CHR 0x1C, CHR 0x1D, CHR 0x1E, CHR 0x1F])"

fun claim_tokens :: "string \<Rightarrow> string list" where
  "claim_tokens [] = []"
| "claim_tokens (c # cs) =
     (if claim_whitespace c then claim_tokens cs
      else case cs of
             [] \<Rightarrow> [[c]]
           | d # _ \<Rightarrow> if claim_whitespace d then [c] # claim_tokens cs
                      else (c # hd (claim_tokens cs)) # tl (claim_tokens cs))"

text \<open>A suffix "parsed as integer if possible else fractional".\<close>

definition claim_number :: "string \<Rightarrow> pynum option" where
  "claim_number t =
     (case py_int t of Some i \<Rightarrow> Some (IntV i) | None \<Rightarrow> map_option FloatV (py_float t))"

text \<open>
  The scan over tokens, on the triple of tracked positions: X, Y and Z tokens set their axis,
  a G token changes nothing, the first token that begins otherwise ends the scan.
\<close>

fun claim_scan ::
  "string list \<Rightarrow> pynum option \<times> pynum option \<times> pynum option \<Rightarrow> pynum option \<times> pynum option \<times> pynum option" where
  "claim_scan [] pos = pos"
| "claim_scan (t # ts) (x, y, z) =
     (case t of
        [] \<Rightarrow> (x, y, z)
      | c # p \<Rightarrow>
          if c = CHR ''X'' then claim_scan ts (claim_number p, y, z)
          else if c = CHR ''Y'' then claim_scan ts (x, claim_number p, z)
          else if c = CHR ''Z'' then claim_scan ts (x, y, claim_number p)
          else if c = CHR ''G'' then claim_scan ts (x, y, z)
          else (x, y, z))"

text \<open>
  The token lists on which the scan meets no empty token and no X, Y or Z token whose
  suffix is not a number.
\<close>

fun scannable :: "string list \<Rightarrow> bool" where
  "scannable [] = True"
| "scannable (t # ts) =
     (case t of
        [] \<Rightarrow> False
      | c # p \<Rightarrow>
          if c = CHR ''X'' \<or> c = CHR ''Y'' \<or> c = CHR ''Z'' then claim_number p \<noteq> None \<and> scannable ts
          else if c = CHR ''G'' then scannable ts
          else True)"


text \<open>An open session whose attachment tag is neither the gripper's nor the fan's.\<close>

definition unknown_attachment_session :: robot_arm where
  "unknown_attachment_session = new_session 7 (Some (Serial\<lparr>is_open := True\<rparr>)) True"

text \<open>
  \<open>same_setup s s'\<close>: from \<open>s\<close> to \<open>s'\<close> only the tracked position may have changed and
  events may have been added.
\<close>

definition same_setup :: "robot_arm \<Rightarrow> robot_arm \<Rightarrow> bool" where
  "same_setup s s' =
     (attachment s' = attachment s \<and> serial_port s' = serial_port s \<and>
      dont_print_logs s' = dont_print_logs s \<and> already_init s' = already_init s \<and>
      coarse_step s' = coarse_step s \<and> fine_step s' = fine_step s \<and>
      (\<exists>es. events s' = events s @ es))"


text \<open>The closed new session after \<^verbatim>\<open>gcode_send("X0.5")\<close>: X is the float 0.5, Y and Z are unset.\<close>

definition half_set_session :: robot_arm where
  "half_set_session = closed_session\<lparr>x_pos := Some (FloatV (Finite False 1 (- 1)))\<rparr>"

text \<open>The session with its tracked position replaced.\<close>

definition with_pos :: "pynum option \<times> pynum option \<times> pynum option \<Rightarrow> robot_arm \<Rightarrow> robot_arm" where
  "with_pos pos s = (case pos of (x, y, z) \<Rightarrow> s\<lparr>x_pos := x, y_pos := y, z_pos := z\<rparr>)"

text \<open>The command \<^verbatim>\<open>"G1\tX10"\<close>: a tab, not a space, stands between its two tokens.\<close>

definition tab_command :: string where
  "tab_command = [CHR ''G'', CHR ''1'', CHR 0x09, CHR ''X'', CHR ''1'', CHR ''0'']"


section \<open>The built-in operations on examples\<close>

text \<open>Values that CPython computes, computed by the model.\<close>

lemmas parse_defs =
  py_int_def py_float_def strip_def is_space_def split_sign_def is_digit_def nat_of_digits_def
  digit_val_def lower_ascii_def parse_decimal_def double_of_decimal_def round_double_def
  bit_length.simps ge_pow2_def scaled_def rdiv_def odd_form.simps Let_def

lemma py_int_examples:
  "py_int ''120'' = Some 120" "py_int ''-7'' = Some (- 7)" "py_int ''007'' = Some 7"
  "py_int ''1_0'' = Some 10" "py_int ''1__0'' = None" "py_int ''+ 5'' = None"
  "py_int ''19.5'' = None" "py_int [] = None" "py_int [CHR 0x09, CHR ''5'', CHR 0x0A] = Some 5"
  by (simp_all add: parse_defs)

lemma py_float_examples:
  "py_float ''19.5'' = Some (Finite False 39 (- 1))"
  "py_float ''134.0'' = Some (Finite False 67 1)"
  "py_float ''10.1'' = Some (Finite False 5685794529555251 (- 49))"
  "py_float ''-0'' = Some (Finite True 0 0)"
  "py_float ''1e1_0'' = Some (Finite False 9765625 10)"
  "py_float ''.5'' = Some (Finite False 1 (- 1))"
  "py_float ''iNf'' = Some (Infinity False)" "py_float ''nan'' = Some NaN"
  "py_float ''1e'' = None" "py_float ''0x10'' = None" "py_float [] = None"
  by (simp_all add: parse_defs)

lemma format_1f_examples:
  "format_1f (Finite False 39 (- 1)) = ''19.5''"
  "format_1f (Finite False 1 (- 2)) = ''0.2''"
  "format_1f (Finite False 3 (- 2)) = ''0.8''"
  "format_1f (Finite True 3152519739159347 (- 53)) = ''-0.3''"
  "format_1f (Finite True 0 0) = ''-0.0''"
  "format_1f (Finite False 5 1) = ''10.0''"
  by (simp_all add: tenths_def rdiv_def digits.simps digit_char_def)

lemma float_add_examples:
  "float_add (Finite False 3602879701896397 (- 55)) (Finite False 3 0) = Finite False 6980579422424269 (- 51)"
  "float_add (Finite True 5 0) (Finite False 5 0) = Finite False 0 0"
  "float_of_int (2 ^ 53 + 1) = Inr (Finite False 1 53)"
  by (simp_all add: float_of_int_def round_double_def bit_length.simps ge_pow2_def scaled_def rdiv_def
      odd_form.simps Let_def)

text \<open>The example sessions are what the constructor and \<^verbatim>\<open>gcode_pos_home\<close> produce.\<close>

lemma example_sessions_constructed:
  "RobotArm ATTACHMENT_GRIPPER None False False True ports r = (Inr (), no_transport_session)"
  "RobotArm ATTACHMENT_GRIPPER (Some Serial) True False True ports r = (Inr (), closed_session)"
  by (simp_all add: RobotArm_def no_transport_session_def closed_session_def is_connection_open_def
      new_session_def Serial_def)

lemma home_session_reached: "gcode_pos_home open_session = (Inr 17, home_session)"
  by (simp add: gcode_pos_home_def gcode_send_pos_def default_pos_def pos_str_def literal_def
      str_int_def digits.simps digit_char_def RobotArm__update_pos_def and_then_def convert_pos_def
      GCODE_G1_def RobotArm__gcode_send_def is_connection_not_open_def is_connection_open_def
      wire_def RobotArm__encode_gcode_def pack_s_def utf8_encode_def utf8_encode_char_def
      print_log_def RobotArm__print_log_def home_session_def open_session_def new_session_def
      Serial_def Let_def)

section \<open>Basic facts about sending\<close>

lemma writes_append: "writes (es @ fs) = writes es @ writes fs"
  by (induction es rule: writes.induct) simp_all

lemma print_log_fields:
  "attachment (print_log m e s) = attachment s"
  "serial_port (print_log m e s) = serial_port s"
  "dont_print_logs (print_log m e s) = dont_print_logs s"
  "already_init (print_log m e s) = already_init s"
  "x_pos (print_log m e s) = x_pos s"
  "y_pos (print_log m e s) = y_pos s"
  "z_pos (print_log m e s) = z_pos s"
  "coarse_step (print_log m e s) = coarse_step s"
  "fine_step (print_log m e s) = fine_step s"
  "writes (events (print_log m e s)) = writes (events s)"
  by (simp_all add: print_log_def RobotArm__print_log_def writes_append)

lemma print_log_events:
  "events (print_log m e s) =
     events s @ (if dont_print_logs s then [] else [Print (''RobotArm: '' @ m @ e)])"
  by (simp add: print_log_def RobotArm__print_log_def)

lemma is_connection_open_print_log: "is_connection_open (print_log m e s) = is_connection_open s"
  by (simp add: is_connection_open_def print_log_fields)

lemma gcode_send_private_not_open:
  "\<not> is_connection_open s \<Longrightarrow>
   RobotArm__gcode_send g s =
     (Inl (if serial_port s = None then ConfigurationError else ConnectionError), s)"
  by (simp add: RobotArm__gcode_send_def is_connection_not_open_def)

lemma gcode_send_private_open:
  "is_connection_open s \<Longrightarrow>
   RobotArm__gcode_send g s =
     (Inr (int (length (wire g))),
      print_log (g @ [CHR 0x0D, CHR 0x0A]) [] (s\<lparr>events := events s @ [SerialWrite (wire g)]\<rparr>))"
  by (auto simp: RobotArm__gcode_send_def is_connection_not_open_def is_connection_open_def
      wire_def Let_def split: option.splits)

lemma gcode_send_private_axes:
  "x_pos (snd (RobotArm__gcode_send g s)) = x_pos s"
  "y_pos (snd (RobotArm__gcode_send g s)) = y_pos s"
  "z_pos (snd (RobotArm__gcode_send g s)) = z_pos s"
  by (simp_all add: RobotArm__gcode_send_def Let_def print_log_fields)

lemma gcode_send_private_positions:
  "get_pos (snd (RobotArm__gcode_send g s)) = get_pos s"
  by (simp add: get_pos_def gcode_send_private_axes)

lemma update_pos_numbers:
  "RobotArm__update_pos (Some (Number x)) (Some (Number y)) (Some (Number z)) s =
     (Inr (), s\<lparr>x_pos := Some x, y_pos := Some y, z_pos := Some z\<rparr>)"
  by (simp add: RobotArm__update_pos_def and_then_def convert_pos_def)

lemma gcode_send_pos_unset:
  "default_pos (x_pos s) xa = None \<or> default_pos (y_pos s) ya = None \<or> default_pos (z_pos s) za = None \<Longrightarrow>
   gcode_send_pos xa ya za s = (Inl (TypeError NoneType_format), s)"
  by (auto simp: gcode_send_pos_def pos_str_def Let_def split: option.splits sum.splits)

lemma gcode_send_pos_set:
  "default_pos (x_pos s) xa = Some x \<Longrightarrow> default_pos (y_pos s) ya = Some y \<Longrightarrow>
   default_pos (z_pos s) za = Some z \<Longrightarrow>
   gcode_send_pos xa ya za s =
     RobotArm__gcode_send (GCODE_G1 (literal x) (literal y) (literal z))
       (s\<lparr>x_pos := Some x, y_pos := Some y, z_pos := Some z\<rparr>)"
  by (simp add: gcode_send_pos_def pos_str_def Let_def update_pos_numbers and_then_def)

section \<open>The claims\<close>

text \<open>
  C8. The private encode-and-transmit step \<^verbatim>\<open>__gcode_send\<close> raises the configuration error
  when the session has no transport and the connection error when it has one that is not
  open; in both cases the session is returned as it was, so no byte is written.
\<close>

theorem gcode_send_private_guard:
  "(serial_port s = None \<longrightarrow> RobotArm__gcode_send gcode s = (Inl ConfigurationError, s)) \<and>
   (\<forall>p. serial_port s = Some p \<and> \<not> is_open p \<longrightarrow>
      RobotArm__gcode_send gcode s = (Inl ConnectionError, s)) \<and>
   (\<not> is_connection_open s \<longrightarrow>
      bytes_sent (events (snd (RobotArm__gcode_send gcode s))) = bytes_sent (events s))"
  by (auto simp: RobotArm__gcode_send_def is_connection_not_open_def is_connection_open_def)

theorem gcode_send_private_guard_witness:
  "serial_port no_transport_session = None \<and>
   RobotArm__gcode_send ''M17'' no_transport_session = (Inl ConfigurationError, no_transport_session) \<and>
   serial_port closed_session = Some Serial \<and> \<not> is_open Serial \<and> \<not> is_connection_open closed_session \<and>
   RobotArm__gcode_send ''M17'' closed_session = (Inl ConnectionError, closed_session) \<and>
   bytes_sent (events (snd (RobotArm__gcode_send ''M17'' closed_session))) = 0"
  using gcode_send_private_guard [of no_transport_session "''M17''"]
    gcode_send_private_guard [of closed_session "''M17''"]
  by (simp add: no_transport_session_def closed_session_def new_session_def Serial_def
      is_connection_open_def bytes_sent_def)

subsection \<open>Motion commands without a connection\<close>

lemma gcode_send_pos_not_open:
  assumes "\<not> is_connection_open s"
  shows "gcode_send_pos xa ya za s =
    (case (default_pos (x_pos s) xa, default_pos (y_pos s) ya, default_pos (z_pos s) za) of
       (Some x, Some y, Some z) \<Rightarrow>
         (Inl (if serial_port s = None then ConfigurationError else ConnectionError),
          s\<lparr>x_pos := Some x, y_pos := Some y, z_pos := Some z\<rparr>)
     | _ \<Rightarrow> (Inl (TypeError NoneType_format), s))"
proof (cases "default_pos (x_pos s) xa = None \<or> default_pos (y_pos s) ya = None \<or> default_pos (z_pos s) za = None")
  case True
  then show ?thesis
    by (auto simp: gcode_send_pos_unset split: option.splits)
next
  case False
  then obtain x y z where d: "default_pos (x_pos s) xa = Some x" "default_pos (y_pos s) ya = Some y"
    "default_pos (z_pos s) za = Some z" by auto
  have "\<not> is_connection_open (s\<lparr>x_pos := Some x, y_pos := Some y, z_pos := Some z\<rparr>)"
    using assms by (simp add: is_connection_open_def)
  then show ?thesis
    by (simp add: gcode_send_pos_set [OF d] d gcode_send_private_not_open)
qed

lemma delta_pos_zero: "d = None \<or> d = Some 0 \<Longrightarrow> delta_pos p d = Inr p"
  by (auto simp: delta_pos_def)

lemma default_pos_same: "default_pos p p = p"
  by (simp add: default_pos_def split: option.splits)

lemma default_pos_None: "default_pos p None = p"
  by (simp add: default_pos_def)







subsection \<open>An omitted axis that was never set\<close>

text \<open>
  C3, as the code has it. When \<^verbatim>\<open>gcode_send_pos\<close> is called with an axis omitted whose
  tracked value is still unset, the value to format is \<^verbatim>\<open>None\<close>, which is no int, and
  \<^verbatim>\<open>f"{None:.1f}"\<close> raises \<^verbatim>\<open>TypeError\<close>: the call fails before the position is updated
  and before anything is encoded or sent.
\<close>

theorem send_pos_unset_axis_fails:
  "(xa = None \<and> x_pos s = None) \<or> (ya = None \<and> y_pos s = None) \<or> (za = None \<and> z_pos s = None) \<Longrightarrow>
   gcode_send_pos xa ya za s = (Inl (TypeError NoneType_format), s)"
  by (rule gcode_send_pos_unset) (auto simp: default_pos_def)

theorem send_pos_unset_axis_fails_witness:
  "y_pos open_session = None \<and> is_connection_open open_session \<and>
   gcode_send_pos (Some (IntV 0)) None None open_session = (Inl (TypeError NoneType_format), open_session)"
proof -
  have y: "y_pos open_session = None"
    by (simp add: open_session_def new_session_def)
  have o: "is_connection_open open_session"
    by (simp add: open_session_def new_session_def is_connection_open_def)
  show ?thesis
    using send_pos_unset_axis_fails [of "Some (IntV 0)" open_session None None] y o by blast
qed

text \<open>
  C3 as stated fails: on the new session with an open port, \<^verbatim>\<open>gcode_send_pos(0)\<close> leaves
  Y and Z to their unset tracked values; no command with a literal \<^verbatim>\<open>None\<close> goes out, the call
  raises and the transport has received nothing.
\<close>

theorem send_pos_unset_axis_sends_nothing:
  "is_connection_open open_session \<and> y_pos open_session = None \<and>
   fst (gcode_send_pos (Some (IntV 0)) None None open_session) = Inl (TypeError NoneType_format) \<and>
   writes (events (snd (gcode_send_pos (Some (IntV 0)) None None open_session))) = []"
proof -
  have "gcode_send_pos (Some (IntV 0)) None None open_session = (Inl (TypeError NoneType_format), open_session)"
    by (rule gcode_send_pos_unset) (simp add: default_pos_def open_session_def new_session_def)
  then show ?thesis
    by (simp add: open_session_def new_session_def is_connection_open_def)
qed

subsection \<open>Finding the default serial port\<close>

text \<open>The regular expression finds the identifiers that contain \<open>usb\<close>, in whatever case.\<close>

lemma usb_regex_search_iff:
  "usb_regex_search s \<longleftrightarrow> (\<exists>pre post. map lower_ascii s = pre @ ''usb'' @ post)"
proof (induction s rule: usb_regex_search.induct)
  case (1 a b c cs)
  show ?case
  proof
    assume "usb_regex_search (a # b # c # cs)"
    then consider "lower_ascii a = CHR ''u'' \<and> lower_ascii b = CHR ''s'' \<and> lower_ascii c = CHR ''b''"
      | "usb_regex_search (b # c # cs)" by auto
    then show "\<exists>pre post. map lower_ascii (a # b # c # cs) = pre @ ''usb'' @ post"
    proof cases
      case 1
      then have "map lower_ascii (a # b # c # cs) = [] @ ''usb'' @ map lower_ascii cs" by simp
      then show ?thesis by blast
    next
      case 2
      then obtain pre post where "map lower_ascii (b # c # cs) = pre @ ''usb'' @ post"
        using 1 by blast
      then have "map lower_ascii (a # b # c # cs) = (lower_ascii a # pre) @ ''usb'' @ post" by simp
      then show ?thesis by blast
    qed
  next
    assume "\<exists>pre post. map lower_ascii (a # b # c # cs) = pre @ ''usb'' @ post"
    then obtain pre post where e: "map lower_ascii (a # b # c # cs) = pre @ ''usb'' @ post" by blast
    show "usb_regex_search (a # b # c # cs)"
    proof (cases pre)
      case Nil
      with e show ?thesis by simp
    next
      case (Cons p pre')
      with e have "map lower_ascii (b # c # cs) = pre' @ ''usb'' @ post" by simp
      then show ?thesis using 1 by auto
    qed
  qed
qed (auto simp: Cons_eq_append_conv)

lemma foldl_take_last: "foldl (\<lambda>acc val. val) y ys = last (y # ys)"
  by (induction ys arbitrary: y) simp_all

lemma reduce_take_last: "xs \<noteq> [] \<Longrightarrow> reduce (\<lambda>acc val. val) xs = Inr (last xs)"
  by (cases xs) (simp_all add: reduce_def foldl_take_last del: last.simps)

text \<open>
  C2, as the code has it. \<^verbatim>\<open>reduce(lambda acc, val: val, ...)\<close> keeps the value it saw last:
  when some available device has an identifier that contains \<open>usb\<close> in whatever case,
  \<^verbatim>\<open>get_default_serial_port\<close> returns an unopened port for the last such device, with
  baud rate 9600 and timeout 2.
\<close>

theorem get_default_serial_port_last:
  "filter usb_regex_search ports \<noteq> [] \<Longrightarrow>
   get_default_serial_port ports =
     Inr \<lparr>port = Some (last (filter usb_regex_search ports)), baudrate = 9600, timeout = Some 2, is_open = False\<rparr>"
  by (simp add: get_default_serial_port_def reduce_take_last last_map Serial_def)

theorem get_default_serial_port_last_witness:
  "filter usb_regex_search [''COM1'', ''/dev/ttyUSB0'', ''/dev/cu.wchusbserial1410'', ''/dev/ttyS0'']
     = [''/dev/ttyUSB0'', ''/dev/cu.wchusbserial1410''] \<and>
   get_default_serial_port [''COM1'', ''/dev/ttyUSB0'', ''/dev/cu.wchusbserial1410'', ''/dev/ttyS0''] =
     Inr \<lparr>port = Some ''/dev/cu.wchusbserial1410'', baudrate = 9600, timeout = Some 2, is_open = False\<rparr>"
  using get_default_serial_port_last [of "[''COM1'', ''/dev/ttyUSB0'', ''/dev/cu.wchusbserial1410'', ''/dev/ttyS0'']"]
  by (simp add: lower_ascii_def)

text \<open>
  C2 as stated fails: of two USB devices the second is selected, not the first.
\<close>

theorem get_default_serial_port_not_first:
  "hd (filter usb_regex_search [''/dev/ttyUSB0'', ''/dev/ttyUSB1'']) = ''/dev/ttyUSB0'' \<and>
   map_sum id port (get_default_serial_port [''/dev/ttyUSB0'', ''/dev/ttyUSB1'']) = Inr (Some ''/dev/ttyUSB1'')"
  by (simp add: get_default_serial_port_def reduce_def Serial_def lower_ascii_def)

text \<open>
  When no identifier matches, \<^verbatim>\<open>reduce\<close> is given an empty sequence and no initial value:
  it raises \<^verbatim>\<open>TypeError\<close>, and the test \<^verbatim>\<open>port is None\<close> with its
  \<^verbatim>\<open>Exception('Cannot find USB port :(')\<close> is never reached.
\<close>

lemma get_default_serial_port_no_match:
  "filter usb_regex_search ports = [] \<Longrightarrow> get_default_serial_port ports = Inl (TypeError Reduce_empty)"
  by (simp add: get_default_serial_port_def reduce_def)

lemma get_default_serial_port_never_not_found:
  "get_default_serial_port ports \<noteq> Inl DeviceNotFoundError"
proof (cases "filter usb_regex_search ports = []")
  case True
  then show ?thesis by (simp add: get_default_serial_port_no_match DeviceNotFoundError_def)
next
  case False
  then have "reduce (\<lambda>acc val. val) (map Some (filter usb_regex_search ports)) =
      Inr (Some (last (filter usb_regex_search ports)))"
    by (simp add: reduce_take_last last_map)
  then show ?thesis by (simp add: get_default_serial_port_def)
qed

subsection \<open>The literals of a motion command\<close>

lemma is_digit_digit_char: "d < 10 \<Longrightarrow> is_digit (digit_char d)"
proof -
  assume "d < 10"
  then have "d \<in> {0, 1, 2, 3, 4, 5, 6, 7, 8, 9}" by auto
  then show ?thesis by (auto simp: is_digit_def digit_char_def)
qed

lemma digits_all_digits: "list_all is_digit (digits n)"
proof (induction n rule: digits.induct)
  case (1 n)
  show ?case
  proof (cases "n < 10")
    case True
    then show ?thesis by (subst digits.simps) (simp add: is_digit_digit_char)
  next
    case False
    then show ?thesis using 1 by (subst digits.simps) (simp add: is_digit_digit_char)
  qed
qed

lemma digits_not_empty: "digits n \<noteq> []"
  by (subst digits.simps) simp

lemma is_digit_not_point: "is_digit c \<Longrightarrow> c \<noteq> CHR ''.''"
  by (auto simp: is_digit_def)

lemma digits_no_point: "CHR ''.'' \<notin> set (digits n)"
  using digits_all_digits [of n] is_digit_not_point by (auto simp: list_all_iff)

lemma str_int_no_point: "CHR ''.'' \<notin> set (str_int i)"
  by (simp add: str_int_def digits_no_point)

lemma format_1f_finite:
  "\<exists>ds d. format_1f (Finite sg m e) = (if sg then ''-'' else []) @ ds @ ''.'' @ [d] \<and>
     ds \<noteq> [] \<and> list_all is_digit ds \<and> is_digit d"
proof -
  let ?t = "tenths m e"
  have "format_1f (Finite sg m e) =
      (if sg then ''-'' else []) @ digits (?t div 10) @ ''.'' @ [digit_char (?t mod 10)]"
    by (simp add: Let_def)
  moreover have "is_digit (digit_char (?t mod 10))" by (simp add: is_digit_digit_char)
  ultimately show ?thesis using digits_not_empty digits_all_digits by blast
qed

lemma wire_home: "wire ''G1 X0 Y120 Z120'' = [71, 49, 32, 88, 48, 32, 89, 49, 50, 48, 32, 90, 49, 50, 48, 13, 10]"
  by (simp add: wire_def RobotArm__encode_gcode_def pack_s_def utf8_encode_def utf8_encode_char_def)

lemma literal_small:
  "literal (IntV 0) = ''0''" "literal (IntV 120) = ''120''"
  "literal (FloatV (Finite False 39 (- 1))) = ''19.5''"
  by (simp_all add: literal_def str_int_def digits.simps digit_char_def tenths_def rdiv_def)

lemma gcode_send_pos_open:
  assumes "is_connection_open s"
  shows "gcode_send_pos (Some x) (Some y) (Some z) s =
    (Inr (int (length (wire (GCODE_G1 (literal x) (literal y) (literal z))))),
     print_log (GCODE_G1 (literal x) (literal y) (literal z) @ [CHR 0x0D, CHR 0x0A]) []
       (s\<lparr>x_pos := Some x, y_pos := Some y, z_pos := Some z,
          events := events s @ [SerialWrite (wire (GCODE_G1 (literal x) (literal y) (literal z)))]\<rparr>))"
proof -
  have o: "is_connection_open (s\<lparr>x_pos := Some x, y_pos := Some y, z_pos := Some z\<rparr>)"
    using assms by (simp add: is_connection_open_def)
  show ?thesis
    by (simp add: gcode_send_pos_set [of s _ x _ y _ z] default_pos_def gcode_send_private_open [OF o])
qed

text \<open>The floats that are no numbers have no decimal point; they are no coordinates.\<close>

lemma literal_non_finite:
  "literal (FloatV (Infinity False)) = ''inf''" "literal (FloatV (Infinity True)) = ''-inf''"
  "literal (FloatV NaN) = ''nan''"
  by (simp_all add: literal_def)

text \<open>
  C5. On a session whose transport is open (a new session in particular),
  \<^verbatim>\<open>gcode_send_pos(0, 120, 120)\<close> returns 17, has written exactly the 17 bytes of
  \<^verbatim>\<open>G1 X0 Y120 Z120\<close>, carriage return, line feed, and tracks the position (0, 120, 120).
  In general the command written is \<^verbatim>\<open>G1 X.. Y.. Z..\<close> with the literals of the three
  coordinates: the literal of an int is its decimal rendering, which has no decimal point;
  the literal of a fractional coordinate (a finite float) is a sign, digits, the decimal
  point and exactly one digit; for \<open>19.5\<close> it is \<^verbatim>\<open>19.5\<close>.
\<close>

theorem send_pos_format:
  "(is_connection_open s \<longrightarrow>
      fst (gcode_send_pos (Some (IntV 0)) (Some (IntV 120)) (Some (IntV 120)) s) = Inr 17 \<and>
      writes (events (snd (gcode_send_pos (Some (IntV 0)) (Some (IntV 120)) (Some (IntV 120)) s))) =
        writes (events s) @ [[71, 49, 32, 88, 48, 32, 89, 49, 50, 48, 32, 90, 49, 50, 48, 13, 10]] \<and>
      get_pos (snd (gcode_send_pos (Some (IntV 0)) (Some (IntV 120)) (Some (IntV 120)) s)) =
        (Some (IntV 0), Some (IntV 120), Some (IntV 120))) \<and>
   (is_connection_open s \<longrightarrow>
      writes (events (snd (gcode_send_pos (Some x) (Some y) (Some z) s))) =
        writes (events s) @ [wire (''G1 X'' @ literal x @ '' Y'' @ literal y @ '' Z'' @ literal z)]) \<and>
   literal (IntV i) = str_int i \<and> CHR ''.'' \<notin> set (literal (IntV i)) \<and>
   (\<exists>ds d. literal (FloatV (Finite sg m e)) = (if sg then ''-'' else []) @ ds @ ''.'' @ [d] \<and>
      ds \<noteq> [] \<and> list_all is_digit ds \<and> is_digit d) \<and>
   literal (FloatV (Finite False 39 (- 1))) = ''19.5''"
proof -
  have g: "GCODE_G1 ''0'' ''120'' ''120'' = ''G1 X0 Y120 Z120''"
    by (simp add: GCODE_G1_def)
  have home: "is_connection_open s \<Longrightarrow>
      fst (gcode_send_pos (Some (IntV 0)) (Some (IntV 120)) (Some (IntV 120)) s) = Inr 17 \<and>
      writes (events (snd (gcode_send_pos (Some (IntV 0)) (Some (IntV 120)) (Some (IntV 120)) s))) =
        writes (events s) @ [[71, 49, 32, 88, 48, 32, 89, 49, 50, 48, 32, 90, 49, 50, 48, 13, 10]] \<and>
      get_pos (snd (gcode_send_pos (Some (IntV 0)) (Some (IntV 120)) (Some (IntV 120)) s)) =
        (Some (IntV 0), Some (IntV 120), Some (IntV 120))"
    by (simp add: gcode_send_pos_open literal_small g wire_home print_log_fields writes_append get_pos_def)
  have gen: "is_connection_open s \<Longrightarrow>
      writes (events (snd (gcode_send_pos (Some x) (Some y) (Some z) s))) =
        writes (events s) @ [wire (''G1 X'' @ literal x @ '' Y'' @ literal y @ '' Z'' @ literal z)]"
    by (simp add: gcode_send_pos_open print_log_fields writes_append GCODE_G1_def)
  have int: "literal (IntV i) = str_int i \<and> CHR ''.'' \<notin> set (literal (IntV i))"
    by (simp add: literal_def str_int_no_point)
  have flt: "\<exists>ds d. literal (FloatV (Finite sg m e)) = (if sg then ''-'' else []) @ ds @ ''.'' @ [d] \<and>
      ds \<noteq> [] \<and> list_all is_digit ds \<and> is_digit d"
    using format_1f_finite [of sg m e] by (simp add: literal_def)
  show ?thesis
    using home gen int flt literal_small(3) by blast
qed

theorem send_pos_format_witness:
  "is_connection_open open_session \<and> get_pos open_session = (None, None, None) \<and>
   events open_session = [] \<and>
   fst (gcode_send_pos (Some (IntV 0)) (Some (IntV 120)) (Some (IntV 120)) open_session) = Inr 17 \<and>
   writes (events (snd (gcode_send_pos (Some (IntV 0)) (Some (IntV 120)) (Some (IntV 120)) open_session))) =
     [[71, 49, 32, 88, 48, 32, 89, 49, 50, 48, 32, 90, 49, 50, 48, 13, 10]] \<and>
   get_pos (snd (gcode_send_pos (Some (IntV 0)) (Some (IntV 120)) (Some (IntV 120)) open_session)) =
     (Some (IntV 0), Some (IntV 120), Some (IntV 120)) \<and>
   writes (events (snd (gcode_send_pos (Some (IntV 0)) (Some (IntV 120)) (Some (FloatV (Finite False 39 (- 1)))) open_session))) =
     [wire ''G1 X0 Y120 Z19.5'']"
proof -
  have o: "is_connection_open open_session" and p: "get_pos open_session = (None, None, None)"
    and e: "events open_session = []"
    by (simp_all add: open_session_def new_session_def is_connection_open_def get_pos_def)
  show ?thesis
    using send_pos_format [of open_session "IntV 0" "IntV 120" "FloatV (Finite False 39 (- 1))"] o p e
    by (simp add: literal_small)
qed

subsection \<open>What the sending methods leave alone\<close>



lemma same_setup_print_log: "same_setup s (print_log m e s)"
  by (simp add: same_setup_def print_log_fields print_log_events)



















subsection \<open>Commands that reach an open transport\<close>

lemma is_connection_open_update [simp]:
  "is_connection_open (s\<lparr>events := es\<rparr>) = is_connection_open s"
  "is_connection_open (s\<lparr>x_pos := x\<rparr>) = is_connection_open s"
  "is_connection_open (s\<lparr>y_pos := y\<rparr>) = is_connection_open s"
  "is_connection_open (s\<lparr>z_pos := z\<rparr>) = is_connection_open s"
  "is_connection_open (s\<lparr>already_init := b\<rparr>) = is_connection_open s"
  by (simp_all add: is_connection_open_def)

lemma wire_commands:
  "wire ''M17'' = [77, 49, 55, 13, 10]"
  "wire ''M3 T10'' = [77, 51, 32, 84, 49, 48, 13, 10]"
  "wire ''M5 T10'' = [77, 53, 32, 84, 49, 48, 13, 10]"
  "wire ''M106'' = [77, 49, 48, 54, 13, 10]"
  "wire ''M107'' = [77, 49, 48, 55, 13, 10]"
  "wire ''G1 X0.0 Y19.5 Z134.0'' =
     [71, 49, 32, 88, 48, 46, 48, 32, 89, 49, 57, 46, 53, 32, 90, 49, 51, 52, 46, 48, 13, 10]"
  by (simp_all add: wire_def RobotArm__encode_gcode_def pack_s_def utf8_encode_def utf8_encode_char_def)

lemma str_int_10: "str_int 10 = ''10''"
  by (simp add: str_int_def digits.simps digit_char_def)

lemma sent_one:
  assumes "is_connection_open s"
  shows "fst (RobotArm__gcode_send g s) = Inr (int (length (wire g)))"
    and "writes (events (snd (RobotArm__gcode_send g s))) = writes (events s) @ [wire g]"
    and "is_connection_open (snd (RobotArm__gcode_send g s))"
    and "attachment (snd (RobotArm__gcode_send g s)) = attachment s"
  using assms
  by (simp_all add: gcode_send_private_open print_log_fields writes_append is_connection_open_print_log)

text \<open>
  C9. With the transport open, \<^verbatim>\<open>gcode_attachment_high\<close> followed by
  \<^verbatim>\<open>gcode_attachment_low\<close> writes, for the gripper, \<^verbatim>\<open>M3 T10\<close> and then \<^verbatim>\<open>M5 T10\<close>
  (the default \<open>t = 10\<close>), and for the fan \<^verbatim>\<open>M106\<close> and then \<^verbatim>\<open>M107\<close>, each with its line
  terminator, and nothing else is written. With any other attachment tag both methods raise
  the exception that names the tag, whatever the state of the transport.
\<close>

theorem attachment_high_low:
  "(is_connection_open s \<and> attachment s = ATTACHMENT_GRIPPER \<longrightarrow>
      fst (gcode_attachment_high s) = Inr 8 \<and>
      writes (events (snd (gcode_attachment_high s))) = writes (events s) @ [wire ''M3 T10''] \<and>
      fst (gcode_attachment_low (snd (gcode_attachment_high s))) = Inr 8 \<and>
      writes (events (snd (gcode_attachment_low (snd (gcode_attachment_high s))))) =
        writes (events s) @ [wire ''M3 T10'', wire ''M5 T10'']) \<and>
   (is_connection_open s \<and> attachment s = ATTACHMENT_FAN \<longrightarrow>
      fst (gcode_attachment_high s) = Inr 6 \<and>
      writes (events (snd (gcode_attachment_high s))) = writes (events s) @ [wire ''M106''] \<and>
      fst (gcode_attachment_low (snd (gcode_attachment_high s))) = Inr 6 \<and>
      writes (events (snd (gcode_attachment_low (snd (gcode_attachment_high s))))) =
        writes (events s) @ [wire ''M106'', wire ''M107'']) \<and>
   (attachment s \<noteq> ATTACHMENT_GRIPPER \<and> attachment s \<noteq> ATTACHMENT_FAN \<longrightarrow>
      gcode_attachment_high s = (Inl (UnsupportedAttachmentError (attachment s)), s) \<and>
      gcode_attachment_low s = (Inl (UnsupportedAttachmentError (attachment s)), s)) \<and>
   wire ''M3 T10'' = [77, 51, 32, 84, 49, 48, 13, 10] \<and>
   wire ''M5 T10'' = [77, 53, 32, 84, 49, 48, 13, 10] \<and>
   wire ''M106'' = [77, 49, 48, 54, 13, 10] \<and>
   wire ''M107'' = [77, 49, 48, 55, 13, 10]"
proof -
  have gripper: "fst (gcode_attachment_high s) = Inr 8 \<and>
      writes (events (snd (gcode_attachment_high s))) = writes (events s) @ [wire ''M3 T10''] \<and>
      fst (gcode_attachment_low (snd (gcode_attachment_high s))) = Inr 8 \<and>
      writes (events (snd (gcode_attachment_low (snd (gcode_attachment_high s))))) =
        writes (events s) @ [wire ''M3 T10'', wire ''M5 T10'']"
    if o: "is_connection_open s" and a: "attachment s = ATTACHMENT_GRIPPER"
  proof -
    have h: "gcode_attachment_high s = RobotArm__gcode_send ''M3 T10'' s"
      by (simp add: gcode_attachment_high_def a gcode_close_gripper_def GCODE_OPEN_GRIPPER_def str_int_10)
    let ?s1 = "snd (RobotArm__gcode_send ''M3 T10'' s)"
    have o1: "is_connection_open ?s1" and a1: "attachment ?s1 = ATTACHMENT_GRIPPER"
      using sent_one [OF o] a by simp_all
    have l: "gcode_attachment_low ?s1 = RobotArm__gcode_send ''M5 T10'' ?s1"
      by (simp add: gcode_attachment_low_def a1 gcode_open_gripper_def GCODE_CLOSE_GRIPPER_def str_int_10)
    show ?thesis
      by (simp add: h l sent_one [OF o] sent_one [OF o1] wire_commands)
  qed
  have fan: "fst (gcode_attachment_high s) = Inr 6 \<and>
      writes (events (snd (gcode_attachment_high s))) = writes (events s) @ [wire ''M106''] \<and>
      fst (gcode_attachment_low (snd (gcode_attachment_high s))) = Inr 6 \<and>
      writes (events (snd (gcode_attachment_low (snd (gcode_attachment_high s))))) =
        writes (events s) @ [wire ''M106'', wire ''M107'']"
    if o: "is_connection_open s" and a: "attachment s = ATTACHMENT_FAN"
  proof -
    have ng: "ATTACHMENT_FAN \<noteq> ATTACHMENT_GRIPPER"
      by (simp add: ATTACHMENT_FAN_def ATTACHMENT_GRIPPER_def)
    have h: "gcode_attachment_high s = RobotArm__gcode_send ''M106'' s"
      by (simp add: gcode_attachment_high_def a ng gcode_enable_fan_def GCODE_ENABLE_FAN_def)
    let ?s1 = "snd (RobotArm__gcode_send ''M106'' s)"
    have o1: "is_connection_open ?s1" and a1: "attachment ?s1 = ATTACHMENT_FAN"
      using sent_one [OF o] a by simp_all
    have l: "gcode_attachment_low ?s1 = RobotArm__gcode_send ''M107'' ?s1"
      by (simp add: gcode_attachment_low_def a1 ng gcode_disable_fan_def GCODE_DISABLE_FAN_def)
    show ?thesis
      by (simp add: h l sent_one [OF o] sent_one [OF o1] wire_commands)
  qed
  have other: "gcode_attachment_high s = (Inl (UnsupportedAttachmentError (attachment s)), s) \<and>
      gcode_attachment_low s = (Inl (UnsupportedAttachmentError (attachment s)), s)"
    if "attachment s \<noteq> ATTACHMENT_GRIPPER" "attachment s \<noteq> ATTACHMENT_FAN"
    using that
    by (simp add: gcode_attachment_high_def gcode_attachment_low_def UnsupportedAttachmentError_def)
  show ?thesis
    using gripper fan other wire_commands(2-5) by blast
qed

theorem attachment_high_low_witness:
  "is_connection_open open_session \<and> attachment open_session = ATTACHMENT_GRIPPER \<and>
   writes (events (snd (gcode_attachment_low (snd (gcode_attachment_high open_session))))) =
     [[77, 51, 32, 84, 49, 48, 13, 10], [77, 53, 32, 84, 49, 48, 13, 10]] \<and>
   is_connection_open fan_session \<and> attachment fan_session = ATTACHMENT_FAN \<and>
   writes (events (snd (gcode_attachment_low (snd (gcode_attachment_high fan_session))))) =
     [[77, 49, 48, 54, 13, 10], [77, 49, 48, 55, 13, 10]] \<and>
   attachment unknown_attachment_session = 7 \<and>
   gcode_attachment_high unknown_attachment_session =
     (Inl (Exception ''unimplemented attachment type: 7''), unknown_attachment_session) \<and>
   gcode_attachment_low unknown_attachment_session =
     (Inl (Exception ''unimplemented attachment type: 7''), unknown_attachment_session)"
proof -
  have o: "is_connection_open open_session" "attachment open_session = ATTACHMENT_GRIPPER"
    "events open_session = []"
    by (simp_all add: open_session_def new_session_def is_connection_open_def)
  have f: "is_connection_open fan_session" "attachment fan_session = ATTACHMENT_FAN"
    "events fan_session = []"
    by (simp_all add: fan_session_def new_session_def is_connection_open_def)
  have u: "attachment unknown_attachment_session = 7"
    "attachment unknown_attachment_session \<noteq> ATTACHMENT_GRIPPER"
    "attachment unknown_attachment_session \<noteq> ATTACHMENT_FAN"
    by (simp_all add: unknown_attachment_session_def new_session_def ATTACHMENT_GRIPPER_def
        ATTACHMENT_FAN_def)
  have m: "UnsupportedAttachmentError 7 = Exception ''unimplemented attachment type: 7''"
    by (simp add: UnsupportedAttachmentError_def str_int_def digits.simps digit_char_def)
  show ?thesis
    using attachment_high_low [of open_session] attachment_high_low [of fan_session]
      attachment_high_low [of unknown_attachment_session] o f u m
    by simp
qed

subsection \<open>The initialization sequence\<close>





text \<open>A first call without an open transport sleeps, raises, and leaves the flag unset.\<close>

lemma init_seq_not_open:
  "\<not> already_init s \<Longrightarrow> \<not> is_connection_open s \<Longrightarrow>
   init_seq s =
     (Inl (if serial_port s = None then ConfigurationError else ConnectionError),
      s\<lparr>events := events s @ [Sleep (Finite False 3 (- 1))]\<rparr>)"
  by (simp add: init_seq_def Let_def and_then_def gcode_enable_motors_def gcode_send_private_not_open)



subsection \<open>Relative moves\<close>

lemma delta_pos_set:
  "delta_pos (Some v) d = Inl OverflowError \<or>
   (\<exists>v'. delta_pos (Some v) d = Inr (Some v') \<and> (d = None \<or> d = Some 0 \<longrightarrow> v' = v))"
  by (auto simp: delta_pos_def py_add_def float_of_int_def split: option.splits pynum.splits sum.splits pyfloat.splits)

lemma gcode_send_pos_given:
  "x_pos (snd (gcode_send_pos (Some x) (Some y) (Some z) s)) = Some x \<and>
   y_pos (snd (gcode_send_pos (Some x) (Some y) (Some z) s)) = Some y \<and>
   z_pos (snd (gcode_send_pos (Some x) (Some y) (Some z) s)) = Some z \<and>
   (is_connection_open s \<longrightarrow>
      fst (gcode_send_pos (Some x) (Some y) (Some z) s) =
        Inr (int (length (wire (GCODE_G1 (literal x) (literal y) (literal z))))) \<and>
      writes (events (snd (gcode_send_pos (Some x) (Some y) (Some z) s))) =
        writes (events s) @ [wire (GCODE_G1 (literal x) (literal y) (literal z))]) \<and>
   (\<not> is_connection_open s \<longrightarrow> (\<exists>e. fst (gcode_send_pos (Some x) (Some y) (Some z) s) = Inl e))"
proof (cases "is_connection_open s")
  case True
  then show ?thesis
    by (simp add: gcode_send_pos_open print_log_fields writes_append)
next
  case False
  then show ?thesis
    by (simp add: gcode_send_pos_not_open default_pos_def)
qed

lemma gcode_send_pos_delta_set:
  assumes "x_pos s = Some x" "y_pos s = Some y" "z_pos s = Some z"
  shows "gcode_send_pos_delta dx dy dz s = (Inl OverflowError, s) \<or>
    (\<exists>x' y' z'. gcode_send_pos_delta dx dy dz s = gcode_send_pos (Some x') (Some y') (Some z') s \<and>
       (dx = None \<or> dx = Some 0 \<longrightarrow> x' = x) \<and> (dy = None \<or> dy = Some 0 \<longrightarrow> y' = y) \<and>
       (dz = None \<or> dz = Some 0 \<longrightarrow> z' = z))"
  using delta_pos_set [of x dx]
proof (elim disjE exE conjE)
  assume "delta_pos (Some x) dx = Inl OverflowError"
  then show ?thesis by (simp add: gcode_send_pos_delta_def assms)
next
  fix x' assume x: "delta_pos (Some x) dx = Inr (Some x')" "dx = None \<or> dx = Some 0 \<longrightarrow> x' = x"
  from delta_pos_set [of y dy] show ?thesis
  proof (elim disjE exE conjE)
    assume "delta_pos (Some y) dy = Inl OverflowError"
    then show ?thesis by (simp add: gcode_send_pos_delta_def assms x)
  next
    fix y' assume y: "delta_pos (Some y) dy = Inr (Some y')" "dy = None \<or> dy = Some 0 \<longrightarrow> y' = y"
    from delta_pos_set [of z dz] show ?thesis
    proof (elim disjE exE conjE)
      assume "delta_pos (Some z) dz = Inl OverflowError"
      then show ?thesis by (simp add: gcode_send_pos_delta_def assms x y)
    next
      fix z' assume z: "delta_pos (Some z) dz = Inr (Some z')" "dz = None \<or> dz = Some 0 \<longrightarrow> z' = z"
      have "gcode_send_pos_delta dx dy dz s = gcode_send_pos (Some x') (Some y') (Some z') s"
        by (simp add: gcode_send_pos_delta_def assms x y z)
      with x(2) y(2) z(2) show ?thesis by blast
    qed
  qed
qed

lemma gcode_send_pos_delta_all_zero:
  "(dx = None \<or> dx = Some 0) \<Longrightarrow> (dy = None \<or> dy = Some 0) \<Longrightarrow> (dz = None \<or> dz = Some 0) \<Longrightarrow>
   gcode_send_pos_delta dx dy dz s = gcode_send_pos (x_pos s) (y_pos s) (z_pos s) s"
  by (simp add: gcode_send_pos_delta_def delta_pos_zero)

lemma zero_delta_axis:
  assumes "x_pos s = Some x" "y_pos s = Some y" "z_pos s = Some z"
  shows "(dx = None \<or> dx = Some 0 \<longrightarrow>
       x_pos (snd (gcode_send_pos_delta dx dy dz s)) = Some x \<and>
       (\<forall>n. fst (gcode_send_pos_delta dx dy dz s) = Inr n \<longrightarrow>
          (\<exists>y' z'. writes (events (snd (gcode_send_pos_delta dx dy dz s))) =
             writes (events s) @ [wire (GCODE_G1 (literal x) (literal y') (literal z'))]))) \<and>
    (dy = None \<or> dy = Some 0 \<longrightarrow>
       y_pos (snd (gcode_send_pos_delta dx dy dz s)) = Some y \<and>
       (\<forall>n. fst (gcode_send_pos_delta dx dy dz s) = Inr n \<longrightarrow>
          (\<exists>x' z'. writes (events (snd (gcode_send_pos_delta dx dy dz s))) =
             writes (events s) @ [wire (GCODE_G1 (literal x') (literal y) (literal z'))]))) \<and>
    (dz = None \<or> dz = Some 0 \<longrightarrow>
       z_pos (snd (gcode_send_pos_delta dx dy dz s)) = Some z \<and>
       (\<forall>n. fst (gcode_send_pos_delta dx dy dz s) = Inr n \<longrightarrow>
          (\<exists>x' y'. writes (events (snd (gcode_send_pos_delta dx dy dz s))) =
             writes (events s) @ [wire (GCODE_G1 (literal x') (literal y') (literal z))]))) \<and>
    (is_connection_open s \<longrightarrow>
       (\<exists>n. fst (gcode_send_pos_delta dx dy dz s) = Inr n) \<or>
       fst (gcode_send_pos_delta dx dy dz s) = Inl OverflowError)"
  using gcode_send_pos_delta_set [OF assms, of dx dy dz]
proof (elim disjE exE conjE)
  assume "gcode_send_pos_delta dx dy dz s = (Inl OverflowError, s)"
  then show ?thesis
    by (simp add: assms)
next
  fix x' y' z'
  assume eq: "gcode_send_pos_delta dx dy dz s = gcode_send_pos (Some x') (Some y') (Some z') s"
    and k: "dx = None \<or> dx = Some 0 \<longrightarrow> x' = x" "dy = None \<or> dy = Some 0 \<longrightarrow> y' = y"
      "dz = None \<or> dz = Some 0 \<longrightarrow> z' = z"
  note g = gcode_send_pos_given [of x' y' z' s]
  show ?thesis
  proof (cases "is_connection_open s")
    case True
    with g have w: "writes (events (snd (gcode_send_pos (Some x') (Some y') (Some z') s))) =
        writes (events s) @ [wire (GCODE_G1 (literal x') (literal y') (literal z'))]"
      and r: "\<exists>n. fst (gcode_send_pos (Some x') (Some y') (Some z') s) = Inr n"
      by simp_all
    have p: "x_pos (snd (gcode_send_pos (Some x') (Some y') (Some z') s)) = Some x'"
      "y_pos (snd (gcode_send_pos (Some x') (Some y') (Some z') s)) = Some y'"
      "z_pos (snd (gcode_send_pos (Some x') (Some y') (Some z') s)) = Some z'"
      using g by simp_all
    show ?thesis
      unfolding eq w p using k r by blast
  next
    case False
    with g obtain e where e: "fst (gcode_send_pos (Some x') (Some y') (Some z') s) = Inl e" by blast
    have p: "x_pos (snd (gcode_send_pos (Some x') (Some y') (Some z') s)) = Some x'"
      "y_pos (snd (gcode_send_pos (Some x') (Some y') (Some z') s)) = Some y'"
      "z_pos (snd (gcode_send_pos (Some x') (Some y') (Some z') s)) = Some z'"
      using g by simp_all
    show ?thesis
      unfolding eq p e using k False by simp
  qed
qed

lemma zero_delta_all:
  assumes "x_pos s = Some x" "y_pos s = Some y" "z_pos s = Some z" and o: "is_connection_open s"
    and z: "dx = None \<or> dx = Some 0" "dy = None \<or> dy = Some 0" "dz = None \<or> dz = Some 0"
  shows "(\<exists>n. fst (gcode_send_pos_delta dx dy dz s) = Inr n) \<and>
       get_pos (snd (gcode_send_pos_delta dx dy dz s)) = get_pos s \<and>
       writes (events (snd (gcode_send_pos_delta dx dy dz s))) =
         writes (events s) @ [wire (GCODE_G1 (literal x) (literal y) (literal z))]"
  using gcode_send_pos_given [of x y z s] o
  by (simp add: gcode_send_pos_delta_all_zero [OF z] assms(1-3) get_pos_def)

text \<open>
  C6. On a session whose three positions are set, \<^verbatim>\<open>gcode_send_pos_delta\<close> with a delta
  that is omitted or exactly 0 on an axis leaves the tracked value of that axis as it was,
  whatever the call's outcome, and whenever the call returns, the command it has written
  carries the literal of that value on that axis. With the transport open the call returns,
  unless the sum on another axis raises \<^verbatim>\<open>OverflowError\<close> (a float position and a delta
  beyond the floats); with all three deltas omitted or 0 it returns, having written the
  command of the position held, which stays.
\<close>

theorem zero_delta_holds_position:
  assumes "x_pos s = Some x" "y_pos s = Some y" "z_pos s = Some z"
  shows
   "(dx = None \<or> dx = Some 0 \<longrightarrow>
       x_pos (snd (gcode_send_pos_delta dx dy dz s)) = Some x \<and>
       (\<forall>n. fst (gcode_send_pos_delta dx dy dz s) = Inr n \<longrightarrow>
          (\<exists>y' z'. writes (events (snd (gcode_send_pos_delta dx dy dz s))) =
             writes (events s) @ [wire (GCODE_G1 (literal x) (literal y') (literal z'))]))) \<and>
    (dy = None \<or> dy = Some 0 \<longrightarrow>
       y_pos (snd (gcode_send_pos_delta dx dy dz s)) = Some y \<and>
       (\<forall>n. fst (gcode_send_pos_delta dx dy dz s) = Inr n \<longrightarrow>
          (\<exists>x' z'. writes (events (snd (gcode_send_pos_delta dx dy dz s))) =
             writes (events s) @ [wire (GCODE_G1 (literal x') (literal y) (literal z'))]))) \<and>
    (dz = None \<or> dz = Some 0 \<longrightarrow>
       z_pos (snd (gcode_send_pos_delta dx dy dz s)) = Some z \<and>
       (\<forall>n. fst (gcode_send_pos_delta dx dy dz s) = Inr n \<longrightarrow>
          (\<exists>x' y'. writes (events (snd (gcode_send_pos_delta dx dy dz s))) =
             writes (events s) @ [wire (GCODE_G1 (literal x') (literal y') (literal z))]))) \<and>
    (is_connection_open s \<longrightarrow>
       (\<exists>n. fst (gcode_send_pos_delta dx dy dz s) = Inr n) \<or>
       fst (gcode_send_pos_delta dx dy dz s) = Inl OverflowError) \<and>
    (is_connection_open s \<and> (dx = None \<or> dx = Some 0) \<and> (dy = None \<or> dy = Some 0) \<and>
       (dz = None \<or> dz = Some 0) \<longrightarrow>
       (\<exists>n. fst (gcode_send_pos_delta dx dy dz s) = Inr n) \<and>
       get_pos (snd (gcode_send_pos_delta dx dy dz s)) = get_pos s \<and>
       writes (events (snd (gcode_send_pos_delta dx dy dz s))) =
         writes (events s) @ [wire (GCODE_G1 (literal x) (literal y) (literal z))])"
  using zero_delta_axis [OF assms, of dx dy dz] zero_delta_all [OF assms, of dx dy dz]
  by blast


theorem zero_delta_holds_position_witness:
  "x_pos home_session = Some (IntV 0) \<and> y_pos home_session = Some (IntV 120) \<and>
   z_pos home_session = Some (IntV 120) \<and> is_connection_open home_session \<and>
   (\<exists>n. fst (gcode_send_pos_delta None None (Some 0) home_session) = Inr n) \<and>
   get_pos (snd (gcode_send_pos_delta None None (Some 0) home_session)) =
     (Some (IntV 0), Some (IntV 120), Some (IntV 120)) \<and>
   writes (events (snd (gcode_send_pos_delta None None (Some 0) home_session))) =
     [wire ''G1 X0 Y120 Z120'', wire ''G1 X0 Y120 Z120''] \<and>
   z_pos (snd (gcode_send_pos_delta (Some 20) None (Some 0) home_session)) = Some (IntV 120)"
proof -
  have h: "x_pos home_session = Some (IntV 0)" "y_pos home_session = Some (IntV 120)"
    "z_pos home_session = Some (IntV 120)"
    by (simp_all add: home_session_def open_session_def new_session_def)
  have o: "is_connection_open home_session"
    by (simp add: home_session_def open_session_def new_session_def is_connection_open_def)
  have e: "writes (events home_session) = [wire ''G1 X0 Y120 Z120'']"
    by (simp add: home_session_def open_session_def new_session_def)
  have g: "GCODE_G1 (literal (IntV 0)) (literal (IntV 120)) (literal (IntV 120)) = ''G1 X0 Y120 Z120''"
    by (simp add: literal_small GCODE_G1_def)
  show ?thesis
    using zero_delta_holds_position [OF h, of None None "Some 0"]
      zero_delta_holds_position [OF h, of "Some 20" None "Some 0"] h o e g
    by (simp add: get_pos_def)
qed

subsection \<open>A relative move on an axis that was never set\<close>

lemma delta_pos_unset: "d \<noteq> None \<Longrightarrow> d \<noteq> Some 0 \<Longrightarrow> delta_pos None d = Inl (TypeError NoneType_add)"
  by (cases d) (auto simp: delta_pos_def py_add_def)

lemma float_of_int_error: "float_of_int i = Inl e \<Longrightarrow> e = OverflowError"
  by (auto simp: float_of_int_def split: pyfloat.splits)

lemma delta_pos_error:
  assumes "delta_pos p d = Inl e"
  shows "(e = TypeError NoneType_add \<and> p = None \<and> d \<noteq> None \<and> d \<noteq> Some 0) \<or>
    (e = OverflowError \<and> (\<exists>f i. p = Some (FloatV f) \<and> d = Some i \<and> i \<noteq> 0 \<and>
        float_of_int i = Inl OverflowError))"
proof (cases d)
  case None
  with assms show ?thesis by (simp add: delta_pos_def)
next
  case (Some i)
  show ?thesis
  proof (cases "i = 0")
    case True
    with assms Some show ?thesis by (simp add: delta_pos_def)
  next
    case False
    with assms Some have a: "py_add p i = Inl e" by (simp add: delta_pos_def)
    show ?thesis
    proof (cases p)
      case None
      with a Some False show ?thesis by (simp add: py_add_def)
    next
      case (Some v)
      show ?thesis
      proof (cases v)
        case (IntV j)
        with a Some show ?thesis by (simp add: py_add_def)
      next
        case (FloatV f)
        with a Some obtain e' where "float_of_int i = Inl e'" "e = e'"
          by (auto simp: py_add_def split: sum.splits)
        with float_of_int_error [of i e'] FloatV Some \<open>d = Some i\<close> False show ?thesis by simp
      qed
    qed
  qed
qed

lemma gcode_send_pos_no_add_error: "fst (gcode_send_pos xa ya za s) \<noteq> Inl (TypeError NoneType_add)"
proof (cases "default_pos (x_pos s) xa = None \<or> default_pos (y_pos s) ya = None \<or> default_pos (z_pos s) za = None")
  case True
  then show ?thesis by (simp add: gcode_send_pos_unset)
next
  case False
  then obtain x y z where d: "default_pos (x_pos s) xa = Some x" "default_pos (y_pos s) ya = Some y"
    "default_pos (z_pos s) za = Some z" by auto
  show ?thesis
    by (simp add: gcode_send_pos_set [OF d] RobotArm__gcode_send_def Let_def ConfigurationError_def
        ConnectionError_def)
qed

lemma delta_pos_too_large: "delta_pos (Some (FloatV f)) (Some (2 ^ 1024)) = Inl OverflowError"
  by (simp add: delta_pos_def py_add_def float_of_int_def round_double_def bit_length.simps
      ge_pow2_def scaled_def rdiv_def Let_def)

text \<open>
  C10, as the code has it. The three sums are computed in the order X, Y, Z, before
  \<^verbatim>\<open>gcode_send_pos\<close> is entered. When an axis is unset and carries a delta other than 0, the
  call fails with the session untouched, so nothing is encoded or written: with the
  \<^verbatim>\<open>TypeError\<close> of \<^verbatim>\<open>None + delta\<close> for the X axis, and for the Y and Z axes either with
  that \<^verbatim>\<open>TypeError\<close> or with the \<^verbatim>\<open>OverflowError\<close> of an earlier axis, which is raised only
  where the position is a float and the delta an int too large to convert to float. When
  every axis that carries a delta other than 0 has a set position, the \<^verbatim>\<open>TypeError\<close> of the
  sum is not raised.
\<close>

theorem delta_on_unset_axis:
  "(x_pos s = None \<and> dx \<noteq> None \<and> dx \<noteq> Some 0 \<longrightarrow>
      gcode_send_pos_delta dx dy dz s = (Inl (TypeError NoneType_add), s)) \<and>
   (y_pos s = None \<and> dy \<noteq> None \<and> dy \<noteq> Some 0 \<longrightarrow>
      snd (gcode_send_pos_delta dx dy dz s) = s \<and>
      (fst (gcode_send_pos_delta dx dy dz s) = Inl (TypeError NoneType_add) \<or>
       fst (gcode_send_pos_delta dx dy dz s) = Inl OverflowError \<and>
         delta_pos (x_pos s) dx = Inl OverflowError)) \<and>
   (z_pos s = None \<and> dz \<noteq> None \<and> dz \<noteq> Some 0 \<longrightarrow>
      snd (gcode_send_pos_delta dx dy dz s) = s \<and>
      (fst (gcode_send_pos_delta dx dy dz s) = Inl (TypeError NoneType_add) \<or>
       fst (gcode_send_pos_delta dx dy dz s) = Inl OverflowError \<and>
         (delta_pos (x_pos s) dx = Inl OverflowError \<or> delta_pos (y_pos s) dy = Inl OverflowError))) \<and>
   (delta_pos p d = Inl OverflowError \<longrightarrow>
      (\<exists>f i. p = Some (FloatV f) \<and> d = Some i \<and> i \<noteq> 0 \<and> float_of_int i = Inl OverflowError)) \<and>
   ((dx \<noteq> None \<and> dx \<noteq> Some 0 \<longrightarrow> x_pos s \<noteq> None) \<and>
    (dy \<noteq> None \<and> dy \<noteq> Some 0 \<longrightarrow> y_pos s \<noteq> None) \<and>
    (dz \<noteq> None \<and> dz \<noteq> Some 0 \<longrightarrow> z_pos s \<noteq> None) \<longrightarrow>
      fst (gcode_send_pos_delta dx dy dz s) \<noteq> Inl (TypeError NoneType_add))"
proof -
  have ax: "gcode_send_pos_delta dx dy dz s = (Inl (TypeError NoneType_add), s)"
    if "x_pos s = None" "dx \<noteq> None" "dx \<noteq> Some 0"
    using that by (simp add: gcode_send_pos_delta_def delta_pos_unset)
  have ay: "snd (gcode_send_pos_delta dx dy dz s) = s \<and>
      (fst (gcode_send_pos_delta dx dy dz s) = Inl (TypeError NoneType_add) \<or>
       fst (gcode_send_pos_delta dx dy dz s) = Inl OverflowError \<and>
         delta_pos (x_pos s) dx = Inl OverflowError)"
    if u: "y_pos s = None" "dy \<noteq> None" "dy \<noteq> Some 0"
  proof (cases "delta_pos (x_pos s) dx")
    case (Inl e)
    with delta_pos_error [OF Inl] show ?thesis
      by (auto simp: gcode_send_pos_delta_def)
  next
    case (Inr x)
    with u show ?thesis by (simp add: gcode_send_pos_delta_def delta_pos_unset)
  qed
  have az: "snd (gcode_send_pos_delta dx dy dz s) = s \<and>
      (fst (gcode_send_pos_delta dx dy dz s) = Inl (TypeError NoneType_add) \<or>
       fst (gcode_send_pos_delta dx dy dz s) = Inl OverflowError \<and>
         (delta_pos (x_pos s) dx = Inl OverflowError \<or> delta_pos (y_pos s) dy = Inl OverflowError))"
    if u: "z_pos s = None" "dz \<noteq> None" "dz \<noteq> Some 0"
  proof (cases "delta_pos (x_pos s) dx")
    case (Inl e)
    with delta_pos_error [OF Inl] show ?thesis
      by (auto simp: gcode_send_pos_delta_def)
  next
    case x: (Inr x)
    show ?thesis
    proof (cases "delta_pos (y_pos s) dy")
      case (Inl e)
      with x delta_pos_error [OF Inl] show ?thesis
        by (auto simp: gcode_send_pos_delta_def)
    next
      case (Inr y)
      with x u show ?thesis by (simp add: gcode_send_pos_delta_def delta_pos_unset)
    qed
  qed
  have ov: "\<exists>f i. p = Some (FloatV f) \<and> d = Some i \<and> i \<noteq> 0 \<and> float_of_int i = Inl OverflowError"
    if "delta_pos p d = Inl OverflowError"
    using delta_pos_error [OF that] by simp
  have pre: "fst (gcode_send_pos_delta dx dy dz s) \<noteq> Inl (TypeError NoneType_add)"
    if h: "dx \<noteq> None \<and> dx \<noteq> Some 0 \<longrightarrow> x_pos s \<noteq> None"
      "dy \<noteq> None \<and> dy \<noteq> Some 0 \<longrightarrow> y_pos s \<noteq> None"
      "dz \<noteq> None \<and> dz \<noteq> Some 0 \<longrightarrow> z_pos s \<noteq> None"
  proof -
    have "delta_pos (x_pos s) dx \<noteq> Inl (TypeError NoneType_add)"
      using h(1) delta_pos_error [of "x_pos s" dx "TypeError NoneType_add"] by auto
    moreover have "delta_pos (y_pos s) dy \<noteq> Inl (TypeError NoneType_add)"
      using h(2) delta_pos_error [of "y_pos s" dy "TypeError NoneType_add"] by auto
    moreover have "delta_pos (z_pos s) dz \<noteq> Inl (TypeError NoneType_add)"
      using h(3) delta_pos_error [of "z_pos s" dz "TypeError NoneType_add"] by auto
    ultimately have n: "delta_pos (x_pos s) dx \<noteq> Inl (TypeError NoneType_add)"
      "delta_pos (y_pos s) dy \<noteq> Inl (TypeError NoneType_add)"
      "delta_pos (z_pos s) dz \<noteq> Inl (TypeError NoneType_add)"
      by simp_all
    show ?thesis
      using n gcode_send_pos_no_add_error
      by (auto simp: gcode_send_pos_delta_def split: sum.splits)
  qed
  show ?thesis
    using ax ay az ov pre by blast
qed

theorem delta_on_unset_axis_witness:
  "get_pos open_session = (None, None, None) \<and>
   gcode_send_pos_delta (Some 5) None None open_session = (Inl (TypeError NoneType_add), open_session) \<and>
   gcode_send_pos_delta None (Some 5) None open_session = (Inl (TypeError NoneType_add), open_session) \<and>
   gcode_send_pos_delta None None (Some 5) open_session = (Inl (TypeError NoneType_add), open_session) \<and>
   get_pos home_session = (Some (IntV 0), Some (IntV 120), Some (IntV 120)) \<and>
   fst (gcode_send_pos_delta None None (Some (- 20)) home_session) \<noteq> Inl (TypeError NoneType_add) \<and>
   delta_pos (Some (FloatV (Finite False 1 (- 1)))) (Some (2 ^ 1024)) = Inl OverflowError \<and>
   float_of_int (2 ^ 1024) = Inl OverflowError"
proof -
  have o: "x_pos open_session = None" "y_pos open_session = None" "z_pos open_session = None"
    by (simp_all add: open_session_def new_session_def)
  have h: "x_pos home_session = Some (IntV 0)" "y_pos home_session = Some (IntV 120)"
    "z_pos home_session = Some (IntV 120)"
    by (simp_all add: home_session_def open_session_def new_session_def)
  have n: "delta_pos None None = Inr None"
    by (simp add: delta_pos_def)
  note big = delta_pos_too_large [of "Finite False 1 (- 1)"]
  have f: "float_of_int (2 ^ 1024) = Inl OverflowError"
    using delta_on_unset_axis [of open_session None None None "Some (FloatV (Finite False 1 (- 1)))" "Some (2 ^ 1024)"] big
    by blast
  have x: "gcode_send_pos_delta (Some 5) None None open_session = (Inl (TypeError NoneType_add), open_session)"
    using delta_on_unset_axis [of open_session "Some 5" None None] o by simp
  have y: "gcode_send_pos_delta None (Some 5) None open_session = (Inl (TypeError NoneType_add), open_session)"
    using delta_on_unset_axis [of open_session None "Some 5" None] o n by (simp add: prod_eq_iff)
  have z: "gcode_send_pos_delta None None (Some 5) open_session = (Inl (TypeError NoneType_add), open_session)"
    using delta_on_unset_axis [of open_session None None "Some 5"] o n by (simp add: prod_eq_iff)
  have p: "fst (gcode_send_pos_delta None None (Some (- 20)) home_session) \<noteq> Inl (TypeError NoneType_add)"
    using delta_on_unset_axis [of home_session None None "Some (- 20)"] h by simp
  show ?thesis
    using o h f x y z p big by (simp add: get_pos_def)
qed

text \<open>
  C10 as stated fails: with X at the float 0.5, Y unset, and the deltas \<open>2\<^sup>1\<^sup>0\<^sup>2\<^sup>4\<close> on X and
  1 on Y, the sum for X is computed first and raises \<^verbatim>\<open>OverflowError\<close>; the call does not fail
  with a \<^verbatim>\<open>TypeError\<close>. The session is the closed new one after \<^verbatim>\<open>gcode_send("X0.5")\<close>.
\<close>

lemma half_set_session_reached: "snd (gcode_send ''X0.5'' closed_session) = half_set_session"
  by (simp add: gcode_send_def and_then_def RobotArm__update_pos_def convert_pos_def parse_defs
      RobotArm__gcode_send_def is_connection_not_open_def is_connection_open_def
      closed_session_def new_session_def Serial_def half_set_session_def)

theorem delta_overflow_before_unset_axis:
  "x_pos half_set_session = Some (FloatV (Finite False 1 (- 1))) \<and> y_pos half_set_session = None \<and>
   gcode_send_pos_delta (Some (2 ^ 1024)) (Some 1) None half_set_session =
     (Inl OverflowError, half_set_session) \<and>
   fst (gcode_send_pos_delta (Some (2 ^ 1024)) (Some 1) None half_set_session) \<noteq>
     Inl (TypeError NoneType_add)"
proof -
  have x: "x_pos half_set_session = Some (FloatV (Finite False 1 (- 1)))"
    and y: "y_pos half_set_session = None"
    by (simp_all add: half_set_session_def closed_session_def new_session_def)
  have d: "delta_pos (x_pos half_set_session) (Some (2 ^ 1024)) = Inl OverflowError"
    unfolding x by (rule delta_pos_too_large)
  have "gcode_send_pos_delta (Some (2 ^ 1024)) (Some 1) None half_set_session =
     (Inl OverflowError, half_set_session)"
    unfolding gcode_send_pos_delta_def d by simp
  with x y show ?thesis by simp
qed

subsection \<open>The scan of a raw command\<close>

lemma convert_pos_text:
  "convert_pos (Text p) = (case claim_number p of Some v \<Rightarrow> Inr v | None \<Rightarrow> Inl ValueError)"
  by (simp add: convert_pos_def claim_number_def split: option.splits)

lemma update_pos_one:
  "RobotArm__update_pos (Some (Text p)) None None s =
     (case claim_number p of Some v \<Rightarrow> (Inr (), s\<lparr>x_pos := Some v\<rparr>) | None \<Rightarrow> (Inl ValueError, s))"
  "RobotArm__update_pos None (Some (Text p)) None s =
     (case claim_number p of Some v \<Rightarrow> (Inr (), s\<lparr>y_pos := Some v\<rparr>) | None \<Rightarrow> (Inl ValueError, s))"
  "RobotArm__update_pos None None (Some (Text p)) s =
     (case claim_number p of Some v \<Rightarrow> (Inr (), s\<lparr>z_pos := Some v\<rparr>) | None \<Rightarrow> (Inl ValueError, s))"
  by (simp_all add: RobotArm__update_pos_def and_then_def convert_pos_text split: option.splits)

lemma scan_segments_scannable:
  "scannable segs \<Longrightarrow>
   scan_segments segs s = (Inr (), with_pos (claim_scan segs (get_pos s)) s)"
proof (induction segs arbitrary: s)
  case Nil
  show ?case by (simp add: with_pos_def get_pos_def)
next
  case (Cons seg segs)
  show ?case
  proof (cases seg)
    case Nil
    with Cons.prems show ?thesis by simp
  next
    case (Cons c p)
    note seg = Cons
    consider (X) "c = CHR ''X''" | (Y) "c = CHR ''Y''" | (Z) "c = CHR ''Z''" | (G) "c = CHR ''G''"
      | (other) "c \<noteq> CHR ''X''" "c \<noteq> CHR ''Y''" "c \<noteq> CHR ''Z''" "c \<noteq> CHR ''G''"
      by blast
    then show ?thesis
    proof cases
      case X
      with Cons.prems seg obtain v where v: "claim_number p = Some v" and r: "scannable segs" by auto
      show ?thesis
        using Cons.IH [OF r, of "s\<lparr>x_pos := Some v\<rparr>"]
        by (simp add: seg X update_pos_one v and_then_def get_pos_def with_pos_def split: prod.splits)
    next
      case Y
      with Cons.prems seg obtain v where v: "claim_number p = Some v" and r: "scannable segs" by auto
      show ?thesis
        using Cons.IH [OF r, of "s\<lparr>y_pos := Some v\<rparr>"]
        by (simp add: seg Y update_pos_one v and_then_def get_pos_def with_pos_def split: prod.splits)
    next
      case Z
      with Cons.prems seg obtain v where v: "claim_number p = Some v" and r: "scannable segs" by auto
      show ?thesis
        using Cons.IH [OF r, of "s\<lparr>z_pos := Some v\<rparr>"]
        by (simp add: seg Z update_pos_one v and_then_def get_pos_def with_pos_def split: prod.splits)
    next
      case G
      with Cons.prems seg have r: "scannable segs" by auto
      show ?thesis
        using Cons.IH [OF r, of s] by (simp add: seg G get_pos_def)
    next
      case other
      then show ?thesis
        by (simp add: seg get_pos_def with_pos_def)
    qed
  qed
qed

lemma with_pos_fields:
  "get_pos (with_pos pos s) = pos" "events (with_pos pos s) = events s"
  "serial_port (with_pos pos s) = serial_port s"
  "is_connection_open (with_pos pos s) = is_connection_open s"
  by (simp_all add: with_pos_def get_pos_def is_connection_open_def split: prod.splits)

lemma claim_number_examples:
  "claim_number ''10'' = Some (IntV 10)" "claim_number ''20'' = Some (IntV 20)"
  "claim_number ''30'' = Some (IntV 30)" "claim_number ''0.5'' = Some (FloatV (Finite False 1 (- 1)))"
  "claim_number [] = None"
  by (simp_all add: claim_number_def parse_defs)

lemma split_example:
  "split_on (CHR '' '') ''G1 X10 Y20 ? Z30'' = [''G1'', ''X10'', ''Y20'', ''?'', ''Z30'']"
  by simp

text \<open>
  C4, as the code has it. \<^verbatim>\<open>gcode_send\<close> cuts the command at every single space, and at
  nothing else. For a command whose scan meets no empty piece and no X, Y or Z piece whose
  suffix is not a number, the pieces are scanned from the left as the claim says (X, Y and Z
  pieces set their axis to the suffix, read as an int where possible and else as a float; a G
  piece changes nothing; the first piece that begins otherwise ends the scan, so that no later
  piece counts), and the command is then handed to \<^verbatim>\<open>__gcode_send\<close> whatever the scan did.
\<close>

theorem gcode_send_scan:
  assumes "scannable (split_on (CHR '' '') gcode)"
  shows "gcode_send gcode s =
      RobotArm__gcode_send gcode (with_pos (claim_scan (split_on (CHR '' '') gcode) (get_pos s)) s) \<and>
    get_pos (snd (gcode_send gcode s)) = claim_scan (split_on (CHR '' '') gcode) (get_pos s)"
  by (simp add: gcode_send_def scan_segments_scannable [OF assms] and_then_def
      gcode_send_private_positions with_pos_fields)


text \<open>In particular \<^verbatim>\<open>G1 X10 Y20 ? Z30\<close> sets X to 10 and Y to 20 and leaves Z as it is.\<close>

lemma gcode_send_example:
  "get_pos (snd (gcode_send ''G1 X10 Y20 ? Z30'' s)) = (Some (IntV 10), Some (IntV 20), z_pos s)"
proof -
  have "scannable (split_on (CHR '' '') ''G1 X10 Y20 ? Z30'')"
    by (simp add: claim_number_examples)
  note e = scan_segments_scannable [OF this, of s]
  have "get_pos (snd (gcode_send ''G1 X10 Y20 ? Z30'' s)) =
      claim_scan (split_on (CHR '' '') ''G1 X10 Y20 ? Z30'') (get_pos s)"
    unfolding gcode_send_def e
    by (simp add: and_then_def gcode_send_private_positions with_pos_fields)
  then show ?thesis
    by (simp add: claim_number_examples get_pos_def)
qed

theorem gcode_send_scan_witness:
  "scannable (split_on (CHR '' '') ''G1 X10 Y20 ? Z30'') \<and>
   get_pos open_session = (None, None, None) \<and>
   get_pos (snd (gcode_send ''G1 X10 Y20 ? Z30'' open_session)) = (Some (IntV 10), Some (IntV 20), None) \<and>
   get_pos home_session = (Some (IntV 0), Some (IntV 120), Some (IntV 120)) \<and>
   get_pos (snd (gcode_send ''G1 X10 Y20 ? Z30'' home_session)) =
     (Some (IntV 10), Some (IntV 20), Some (IntV 120))"
proof -
  have sc: "scannable (split_on (CHR '' '') ''G1 X10 Y20 ? Z30'')"
    by (simp add: claim_number_examples)
  have p: "get_pos open_session = (None, None, None)"
    "get_pos home_session = (Some (IntV 0), Some (IntV 120), Some (IntV 120))"
    by (simp_all add: get_pos_def home_session_def open_session_def new_session_def)
  show ?thesis
    using gcode_send_scan [OF sc, of open_session, THEN conjunct2]
      gcode_send_scan [OF sc, of home_session, THEN conjunct2] sc p
    by (simp add: claim_number_examples)
qed

text \<open>
  C4 as stated fails: the whitespace-delimited tokens of \<^verbatim>\<open>"G1\tX10"\<close> are \<^verbatim>\<open>G1\<close> and
  \<^verbatim>\<open>X10\<close>, and their scan would set X to 10; \<^verbatim>\<open>gcode_send\<close> sees one piece that begins
  with G, sends the command and leaves X unset.
\<close>

theorem gcode_send_tab_not_a_delimiter:
  "claim_tokens tab_command = [''G1'', ''X10''] \<and>
   claim_scan (claim_tokens tab_command) (get_pos open_session) = (Some (IntV 10), None, None) \<and>
   fst (gcode_send tab_command open_session) = Inr 8 \<and>
   get_pos (snd (gcode_send tab_command open_session)) = (None, None, None)"
proof -
  have t: "claim_tokens tab_command = [''G1'', ''X10'']"
    by (simp add: tab_command_def claim_whitespace_def is_space_def)
  have s: "split_on (CHR '' '') tab_command = [tab_command]"
    by (simp add: tab_command_def)
  have sc: "scan_segments [tab_command] open_session = (Inr (), open_session)"
    by (simp add: tab_command_def)
  have o: "is_connection_open open_session" and p: "get_pos open_session = (None, None, None)"
    by (simp_all add: open_session_def new_session_def is_connection_open_def get_pos_def)
  have w: "length (wire tab_command) = 8"
    by (simp add: wire_def RobotArm__encode_gcode_def pack_s_def utf8_encode_def utf8_encode_char_def
        tab_command_def)
  have g: "gcode_send tab_command open_session = RobotArm__gcode_send tab_command open_session"
    unfolding gcode_send_def s sc by (simp add: and_then_def)
  have f: "fst (gcode_send tab_command open_session) = Inr 8"
    by (simp add: g gcode_send_private_open [OF o] w)
  have q: "get_pos (snd (gcode_send tab_command open_session)) = (None, None, None)"
    by (simp add: g gcode_send_private_positions p)
  show ?thesis
    by (simp add: t p claim_number_examples f q)
qed

text \<open>An empty piece, and a suffix that is no number, end the call with an exception.\<close>

lemma gcode_send_empty_piece: "gcode_send ''G1  X10'' s = (Inl IndexError, s)"
  by (simp add: gcode_send_def and_then_def)

lemma gcode_send_no_number: "gcode_send ''G1 X'' s = (Inl ValueError, s)"
  by (simp add: gcode_send_def and_then_def update_pos_one claim_number_examples)

end
